theory Spec2Isabelle
  imports Complex_Main "HOL-Library.Sublist"
begin

chapter \<open>Trax: the layers notebook and the LSTM sequence-to-sequence configuration\<close>

text \<open>
  The sources are two files: the hyperparameter file
  \<^verbatim>\<open>trax/configs/lstm_seq2seq_wmt_ende.gin\<close> and the notebook \<^verbatim>\<open>trax/layers/intro.ipynb\<close>, an
  introduction to the layer library with ten code cells, their recorded outputs and
  quotations of the library's docstrings. The first two sections embed the two files as
  they are; the third models the layer library from what the notebook says of it; the
  remaining sections state and prove the properties.
\<close>

section \<open>The configuration file \<^verbatim>\<open>trax/configs/lstm_seq2seq_wmt_ende.gin\<close>\<close>

text \<open>
  The file is data, not code: it is embedded as the list of its 68 text lines, in file
  order and character for character. A single quote inside a line is written \<open>sq\<close>,
  a backslash \<open>bs\<close>.
\<close>

abbreviation sq :: string where
  "sq \<equiv> [CHR 0x27]"

abbreviation bs :: string where
  "bs \<equiv> [CHR 0x5C]"

definition gin_file :: "string list" where
  \<open>gin_file =
  [''# Copyright 2020 The Trax Authors.'',
   ''#'',
   ''# Licensed under the Apache License, Version 2.0 (the "License");'',
   ''# you may not use this file except in compliance with the License.'',
   ''# You may obtain a copy of the License at'',
   ''#'',
   ''#     http://www.apache.org/licenses/LICENSE-2.0'',
   ''#'',
   ''# Unless required by applicable law or agreed to in writing, software'',
   ''# distributed under the License is distributed on an "AS IS" BASIS,'',
   ''# WITHOUT WARRANTIES OR CONDITIONS OF ANY KIND, either express or implied.'',
   ''# See the License for the specific language governing permissions and'',
   ''# limitations under the License.'',
   '''',
   ''import trax.lr_schedules'',
   ''import trax.models'',
   ''import trax.optimizers'',
   ''import trax.supervised.inputs'',
   ''import trax.supervised.trainer_lib'',
   '''',
   ''# Parameters for batch_fn:'',
   ''# =============================================================================='',
   ''batch_fn.batch_size_per_device = 64'',
   ''batch_fn.eval_batch_size = 64'',
   ''batch_fn.max_eval_length = 512'',
   ''batch_fn.bucket_length = 32'',
   ''batch_fn.buckets_include_inputs_in_length=True'',
   '''',
   ''# Parameters for inputs:'',
   ''# =============================================================================='',
   ''inputs.data_dir = None'',
   ''inputs.dataset_name = '' @ sq @ ''t2t_translate_ende_wmt32k'' @ sq,
   '''',
   ''# Parameters for preprocess_fun:'',
   ''# =============================================================================='',
   ''shuffle_and_batch_data.preprocess_fun=@trax.supervised.inputs.wmt_preprocess'',
   ''wmt_preprocess.max_length = 256'',
   ''wmt_preprocess.max_eval_length = 512'',
   '''',
   ''# Parameters for lr_schedules.warmup:'',
   ''# =============================================================================='',
   ''lr_schedules.warmup.max_value = 0.001'',
   ''lr_schedules.warmup.n_warmup_steps = 1000'',
   '''',
   ''# Parameters for Adam:'',
   ''# =============================================================================='',
   ''Adam.weight_decay_rate = 0.0'',
   '''',
   ''# Parameters for train:'',
   ''# =============================================================================='',
   ''train.eval_frequency = 1000'',
   ''train.eval_steps = 10'',
   ''train.id_to_mask = 0'',
   ''train.inputs = @trax.supervised.inputs.inputs'',
   ''train.model = @trax.models.LSTMSeq2SeqAttn'',
   ''train.optimizer = @trax.optimizers.Adam'',
   ''train.lr_schedule = @lr_schedules.warmup'',
   ''train.steps = 250000'',
   '''',
   ''# Parameters for LSTMSeq2SeqAttn:'',
   ''# =============================================================================='',
   ''LSTMSeq2SeqAttn.d_model= 1024'',
   ''LSTMSeq2SeqAttn.n_encoder_layers = 2'',
   ''LSTMSeq2SeqAttn.n_decoder_layers = 2'',
   ''LSTMSeq2SeqAttn.attention_dropout = 0.2'',
   ''LSTMSeq2SeqAttn.n_attention_heads = 8'',
   ''LSTMSeq2SeqAttn.input_vocab_size = 33300'',
   ''LSTMSeq2SeqAttn.target_vocab_size = 33300'']\<close>

subsection \<open>Reading a line\<close>

text \<open>
  The reader of the format is not part of the repository. The classification below is the
  surface syntax of the format as far as this file uses it: a line is blank, a comment
  (first non-blank character \<open>#\<close>), an \<open>import\<close> statement, or a binding
  \<open>key = value\<close>; anything else is kept as \<open>Other\<close>.
\<close>

definition is_space :: "char \<Rightarrow> bool" where
  "is_space c \<longleftrightarrow> c = CHR '' '' \<or> c = CHR 0x09"

definition strip :: "string \<Rightarrow> string" where
  "strip s = rev (dropWhile is_space (rev (dropWhile is_space s)))"

datatype gin_line =
    Blank
  | Comment
  | Import string
  | Binding string string
  | Other string

definition parse_line :: "string \<Rightarrow> gin_line" where
  "parse_line l =
     (let s = dropWhile is_space l in
      if s = [] then Blank
      else if hd s = CHR ''#'' then Comment
      else if prefix ''import '' s then Import (strip (drop 7 s))
      else (case dropWhile (\<lambda>c. c \<noteq> CHR ''='') s of
              e # v \<Rightarrow> Binding (strip (takeWhile (\<lambda>c. c \<noteq> CHR ''='') s)) (strip v)
            | [] \<Rightarrow> Other (strip s)))"

subsection \<open>Reading a value\<close>

text \<open>
  A value is a Python literal or a reference \<open>@name\<close> to a configurable function or
  class. A decimal literal \<open>d.f\<close> is kept exactly, as the integer \<open>df\<close> and the number
  of digits after the point: \<open>FloatLit m k\<close> stands for \<open>m / 10 ^ k\<close>.
\<close>

datatype gin_value =
    NoneLit
  | BoolLit bool
  | IntLit nat
  | FloatLit nat nat
  | StrLit string
  | Reference string
  | Unparsed string

definition is_digit :: "char \<Rightarrow> bool" where
  "is_digit c \<longleftrightarrow> 48 \<le> (of_char c :: nat) \<and> (of_char c :: nat) \<le> 57"

definition nat_of_digits :: "string \<Rightarrow> nat" where
  "nat_of_digits ds = foldl (\<lambda>n c. 10 * n + (of_char c - 48)) 0 ds"

definition parse_value :: "string \<Rightarrow> gin_value" where
  "parse_value v =
     (if v = ''None'' then NoneLit
      else if v = ''True'' then BoolLit True
      else if v = ''False'' then BoolLit False
      else if v \<noteq> [] \<and> hd v = CHR ''@'' then Reference (tl v)
      else if 2 \<le> length v \<and> hd v = CHR 0x27 \<and> last v = CHR 0x27 then StrLit (butlast (tl v))
      else if v \<noteq> [] \<and> list_all is_digit v then IntLit (nat_of_digits v)
      else (case dropWhile is_digit v of
              d # fp \<Rightarrow>
                if takeWhile is_digit v \<noteq> [] \<and> d = CHR ''.'' \<and> fp \<noteq> [] \<and> list_all is_digit fp
                then FloatLit (nat_of_digits (takeWhile is_digit v @ fp)) (length fp)
                else Unparsed v
            | [] \<Rightarrow> Unparsed v))"

text \<open>The number that a numeric literal stands for.\<close>

definition number_of :: "gin_value \<Rightarrow> rat option" where
  "number_of v = (case v of
      IntLit n \<Rightarrow> Some (of_nat n)
    | FloatLit m k \<Rightarrow> Some (of_nat m / 10 ^ k)
    | _ \<Rightarrow> None)"

definition is_scalar :: "gin_value \<Rightarrow> bool" where
  "is_scalar v = (case v of
      NoneLit \<Rightarrow> True | BoolLit b \<Rightarrow> True | IntLit n \<Rightarrow> True
    | FloatLit m k \<Rightarrow> True | StrLit s \<Rightarrow> True
    | Reference r \<Rightarrow> False | Unparsed u \<Rightarrow> False)"

definition is_reference :: "gin_value \<Rightarrow> bool" where
  "is_reference v = (case v of Reference r \<Rightarrow> True | _ \<Rightarrow> False)"

subsection \<open>The bindings of the file\<close>

fun binding_of :: "gin_line \<Rightarrow> (string \<times> gin_value) option" where
  "binding_of (Binding k v) = Some (k, parse_value v)"
| "binding_of _ = None"

definition gin_bindings :: "(string \<times> gin_value) list" where
  "gin_bindings = List.map_filter binding_of (map parse_line gin_file)"

text \<open>A later binding of a key overrides an earlier one, so the lookup reads the file backwards.\<close>

definition gin_lookup :: "string \<Rightarrow> gin_value option" where
  "gin_lookup k = map_of (rev gin_bindings) k"

text \<open>
  A key is \<open>configurable.parameter\<close>: the name before the last dot is the function or class of
  the framework whose parameter is bound.
\<close>

definition configurable_of :: "string \<Rightarrow> string" where
  "configurable_of k = rev (tl (dropWhile (\<lambda>c. c \<noteq> CHR ''.'') (rev k)))"

definition is_blank :: "gin_line \<Rightarrow> bool" where
  "is_blank g = (case g of Blank \<Rightarrow> True | _ \<Rightarrow> False)"

definition is_comment :: "gin_line \<Rightarrow> bool" where
  "is_comment g = (case g of Comment \<Rightarrow> True | _ \<Rightarrow> False)"

definition is_import :: "gin_line \<Rightarrow> bool" where
  "is_import g = (case g of Import m \<Rightarrow> True | _ \<Rightarrow> False)"

definition is_binding :: "gin_line \<Rightarrow> bool" where
  "is_binding g = (case g of Binding k v \<Rightarrow> True | _ \<Rightarrow> False)"

section \<open>The code cells of the notebook \<^verbatim>\<open>trax/layers/intro.ipynb\<close>\<close>

text \<open>
  The notebook has ten code cells. Each is embedded as the list of its source lines, in
  notebook order; the cell outputs recorded in the notebook are quoted where a theorem
  compares against them.
\<close>

definition cell_setup_numpy :: "string list" where
  \<open>cell_setup_numpy =
    [''# Copyright 2018 Google LLC.'',
     '''',
     ''# Licensed under the Apache License, Version 2.0 (the "License");'',
     ''# you may not use this file except in compliance with the License.'',
     ''# You may obtain a copy of the License at'',
     '''',
     ''# https://www.apache.org/licenses/LICENSE-2.0'',
     '''',
     ''# Unless required by applicable law or agreed to in writing, software'',
     ''# distributed under the License is distributed on an "AS IS" BASIS,'',
     ''# WITHOUT WARRANTIES OR CONDITIONS OF ANY KIND, either express or implied.'',
     ''# See the License for the specific language governing permissions and'',
     ''# limitations under the License.'',
     '''',
     ''import numpy as np'',
     '''',
     '''',
     '''']\<close>

definition cell_import_trax :: "string list" where
  \<open>cell_import_trax =
    [''# Import Trax'',
     '''',
     ''! pip install -q -U trax'',
     ''! pip install -q tensorflow'',
     '''',
     ''from trax import math'',
     ''from trax import layers as tl'',
     ''from trax import shapes'',
     ''from trax.math import numpy as jnp  # For use in defining new layer types.'',
     ''from trax.shapes import ShapeDtype'',
     ''from trax.shapes import signature'']\<close>

definition cell_utilities :: "string list" where
  \<open>cell_utilities =
    [''# Settings and utilities for handling inputs, outputs, and object properties.'',
     '''',
     ''np.set_printoptions(precision=3)  # Reduce visual noise from extra digits.'',
     '''',
     ''def show_layer_properties(layer_obj, layer_name):'',
     ''  template = ('' @ sq @ ''{}.n_in:  {}'' @ bs @ ''n'' @ sq,
     ''              '' @ sq @ ''{}.n_out: {}'' @ bs @ ''n'' @ sq,
     ''              '' @ sq @ ''{}.sublayers: {}'' @ bs @ ''n'' @ sq,
     ''              '' @ sq @ ''{}.weights:    {}'' @ bs @ ''n'' @ sq @ '')'',
     ''  print(template.format(layer_name, layer_obj.n_in,'',
     ''                        layer_name, layer_obj.n_out,'',
     ''                        layer_name, layer_obj.sublayers,'',
     ''                        layer_name, layer_obj.weights))'',
     '''',
     ''def floats_in_range(start, end):'',
     ''  return np.arange(start, end).astype(np.float32)'']\<close>

definition cell_example1_relu :: "string list" where
  \<open>cell_example1_relu =
    [''relu = tl.Relu()'',
     '''',
     ''x = np.array([[-2, -1, 0, 1, 2],'',
     ''              [-20, -10, 0, 10, 20]])'',
     ''y = relu(x)'',
     '''',
     ''# Show input, output, and two layer properties.'',
     ''print(f'' @ sq @ ''x:'' @ bs @ ''n{x}'' @ bs @ ''n'' @ bs @ ''n'' @ sq,
     ''      f'' @ sq @ ''relu(x):'' @ bs @ ''n{y}'' @ bs @ ''n'' @ bs @ ''n'' @ sq,
     ''      f'' @ sq @ ''Number of inputs expected by this layer: {relu.n_in}'' @ bs @ ''n'' @ sq,
     ''      f'' @ sq @ ''Number of outputs promised by this layer: {relu.n_out}'' @ sq @ '')'']\<close>

definition cell_example2_concatenate :: "string list" where
  \<open>cell_example2_concatenate =
    [''concat = tl.Concatenate()'',
     '''',
     ''x0 = np.array([[1, 2, 3],'',
     ''               [4, 5, 6]])'',
     ''x1 = np.array([[10, 20, 30],'',
     ''               [40, 50, 60]])'',
     ''y = concat([x0, x1])'',
     '''',
     ''print(f'' @ sq @ ''x0:'' @ bs @ ''n{x0}'' @ bs @ ''n'' @ bs @ ''n'' @ sq,
     ''      f'' @ sq @ ''x1:'' @ bs @ ''n{x1}'' @ bs @ ''n'' @ bs @ ''n'' @ sq,
     ''      f'' @ sq @ ''concat([x1, x2]):'' @ bs @ ''n{y}'' @ bs @ ''n'' @ bs @ ''n'' @ sq,
     ''      f'' @ sq @ ''Number of inputs expected by this layer: {concat.n_in}'' @ bs @ ''n'' @ sq,
     ''      f'' @ sq @ ''Number of outputs promised by this layer: {concat.n_out}'' @ sq @ '')'']\<close>

definition cell_example3_concatenate3 :: "string list" where
  \<open>cell_example3_concatenate3 =
    [''concat3 = tl.Concatenate(n_items=3, axis=0)'',
     '''',
     ''x0 = np.array([[1, 2, 3],'',
     ''               [4, 5, 6]])'',
     ''x1 = np.array([[10, 20, 30],'',
     ''               [40, 50, 60]])'',
     ''x2 = np.array([[100, 200, 300],'',
     ''               [400, 500, 600]])'',
     '''',
     ''y = concat3([x0, x1, x2])'',
     '''',
     ''print(f'' @ sq @ ''x0:'' @ bs @ ''n{x0}'' @ bs @ ''n'' @ bs @ ''n'' @ sq,
     ''      f'' @ sq @ ''x1:'' @ bs @ ''n{x1}'' @ bs @ ''n'' @ bs @ ''n'' @ sq,
     ''      f'' @ sq @ ''concat3([x0, x1, x2]):'' @ bs @ ''n{y}'' @ sq @ '')'']\<close>

definition cell_example4_layer_norm :: "string list" where
  \<open>cell_example4_layer_norm =
    [''layer_norm = tl.LayerNorm()'',
     '''',
     ''x = np.array([[-2, -1, 0, 1, 2],'',
     ''              [1, 2, 3, 4, 5],'',
     ''              [10, 20, 30, 40, 50]]).astype(np.float32)'',
     ''layer_norm.init(signature(x))'',
     '''',
     ''y = layer_norm(x)'',
     '''',
     ''print(f'' @ sq @ ''x:'' @ bs @ ''n{x}'' @ bs @ ''n'' @ bs @ ''n'' @ sq,
     ''      f'' @ sq @ ''layer_norm(x):'' @ bs @ ''n{y}'' @ bs @ ''n'' @ sq @ '')'',
     ''print(f'' @ sq @ ''layer_norm.weights:'' @ bs @ ''n{layer_norm.weights}'' @ sq @ '')'']\<close>

definition cell_example5_serial :: "string list" where
  \<open>cell_example5_serial =
    [''layer_block = tl.Serial('',
     ''    tl.Relu(),'',
     ''    tl.LayerNorm(),'',
     '')'',
     '''',
     ''x = np.array([[-2, -1, 0, 1, 2],'',
     ''              [-20, -10, 0, 10, 20]]).astype(np.float32)'',
     ''layer_block.init(signature(x))'',
     ''y = layer_block(x)'',
     '''',
     ''print(f'' @ sq @ ''x:'' @ bs @ ''n{x}'' @ bs @ ''n'' @ bs @ ''n'' @ sq,
     ''      f'' @ sq @ ''layer_block(x):'' @ bs @ ''n{y}'' @ sq @ '')'']\<close>

definition cell_example5_inspect :: "string list" where
  \<open>cell_example5_inspect =
    [''print(f'' @ sq @ ''layer_block: {layer_block}'' @ bs @ ''n'' @ bs @ ''n'' @ sq,
     ''      f'' @ sq @ ''layer_block.weights: {layer_block.weights}'' @ sq @ '')'']\<close>

definition cell_example6_branch :: "string list" where
  \<open>cell_example6_branch =
    [''relu = tl.Relu()'',
     ''times_100 = tl.Fn("Times100", lambda x: x * 100.0)'',
     ''branch_relu_t100 = tl.Branch(relu, times_100)'',
     '''',
     ''x = np.array([[-2, -1, 0, 1, 2],'',
     ''              [-20, -10, 0, 10, 20]])'',
     ''branch_relu_t100.init(signature(x))'',
     '''',
     ''y0, y1 = branch_relu_t100(x)'',
     '''',
     ''print(f'' @ sq @ ''x:'' @ bs @ ''n{x}'' @ bs @ ''n'' @ bs @ ''n'' @ sq,
     ''      f'' @ sq @ ''y0:'' @ bs @ ''n{y0}'' @ bs @ ''n'' @ bs @ ''n'' @ sq,
     ''      f'' @ sq @ ''y1:'' @ bs @ ''n{y1}'' @ sq @ '')'']\<close>

definition notebook_code :: "string list list" where
  "notebook_code =
    [cell_setup_numpy,
     cell_import_trax,
     cell_utilities,
     cell_example1_relu,
     cell_example2_concatenate,
     cell_example3_concatenate3,
     cell_example4_layer_norm,
     cell_example5_serial,
     cell_example5_inspect,
     cell_example6_branch]"

subsection \<open>Calls into the layer library\<close>

text \<open>
  The notebook imports the layer library as \<open>tl\<close> (\<^verbatim>\<open>from trax import layers as tl\<close>), so a
  layer constructor is called wherever \<open>tl.Name(\<close> occurs in a code line that is not a
  comment. The flag of \<open>scan_calls\<close> tells whether the previous character belongs to an
  identifier, in which case \<open>tl\<close> is the tail of a longer name.
\<close>

definition is_ident_char :: "char \<Rightarrow> bool" where
  "is_ident_char c \<longleftrightarrow>
     (let n = (of_char c :: nat) in
      (48 \<le> n \<and> n \<le> 57) \<or> (65 \<le> n \<and> n \<le> 90) \<or> (97 \<le> n \<and> n \<le> 122) \<or> n = 95)"

fun scan_calls :: "bool \<Rightarrow> string \<Rightarrow> string list" where
  "scan_calls prev [] = []"
| "scan_calls prev (c # cs) =
     (if \<not> prev \<and> prefix ''tl.'' (c # cs)
      then (if takeWhile is_ident_char (drop 2 cs) \<noteq> [] \<and>
               prefix ''('' (dropWhile is_ident_char (drop 2 cs))
            then [takeWhile is_ident_char (drop 2 cs)] else [])
      else []) @ scan_calls (is_ident_char c) cs"

definition line_calls :: "string \<Rightarrow> string list" where
  "line_calls l =
     (if prefix ''#'' (dropWhile is_space l) then [] else scan_calls False l)"

definition tl_calls :: "string list list \<Rightarrow> string list" where
  "tl_calls cells = concat (map line_calls (concat cells))"

text \<open>The layer composition API as the specification lists it.\<close>

definition spec_layer_api :: "string list" where
  "spec_layer_api = [''Serial'', ''Branch'', ''Concatenate'', ''Relu'', ''LayerNorm'']"

section \<open>The layer library as the notebook documents it\<close>

text \<open>
  The notebook calls into the layer library (\<^verbatim>\<open>trax.layers\<close>, \<^verbatim>\<open>trax.shapes\<close>), whose code is
  not among the sources. What the sources hold is the notebook's quotation of the library's
  docstrings (\<open>Layer\<close>, \<open>init\<close>, \<open>signature\<close>, \<open>Serial\<close>, \<open>Branch\<close>), the quoted source
  of \<open>Residual\<close>, the calls of the code cells and their recorded outputs. The definitions
  of this section follow those words; array items are real numbers, so floating-point
  rounding is not modelled.
\<close>

subsection \<open>Arrays and signatures\<close>

datatype dtype = int64 | float32 | float64

text \<open>
  Modelled from the spec: the class \<open>ShapeDtype\<close> of \<^verbatim>\<open>trax.shapes\<close> is missing; a signature
  is "shape/dtype metadata describing expected layer inputs".
\<close>

record ShapeDtype =
  shape :: "nat list"
  dtype :: dtype

text \<open>
  A NumPy array is an object with \<open>shape\<close> and \<open>dtype\<close> attributes; its items are kept in
  row-major order.
\<close>

record ndarray = ShapeDtype +
  items :: "real list"

text \<open>The argument of \<open>signature\<close>: one object, or a list or tuple of objects.\<close>

datatype 'o signature_arg = Obj 'o | Objs "'o list"

text \<open>Its result: "either a \<open>ShapeDtype\<close> instance or a tuple of \<open>ShapeDtype\<close> instances".\<close>

datatype signature_t = Sig ShapeDtype | SigTuple "ShapeDtype list"

definition shape_dtype :: "'m ShapeDtype_scheme \<Rightarrow> ShapeDtype" where
  "shape_dtype obj = \<lparr>shape = shape obj, dtype = dtype obj\<rparr>"

text \<open>
  Modelled from the spec: the function \<open>signature\<close> of \<^verbatim>\<open>trax.shapes\<close> is missing; by its quoted
  docstring it "returns a \<open>ShapeDtype\<close> signature for the given \<open>obj\<close>", accepts "an object
  that has \<open>shape\<close> and \<open>dtype\<close> attributes, or a list/tuple of such objects" and is "strict
  with respect to its outputs (only \<open>ShapeDtype\<close>, and only tuples)". The record scheme
  \<open>'m ShapeDtype_scheme\<close> is any object with the two attributes.
\<close>

fun signature :: "('m ShapeDtype_scheme) signature_arg \<Rightarrow> signature_t" where
  "signature (Obj obj) = Sig (shape_dtype obj)"
| "signature (Objs objs) = SigTuple (map shape_dtype objs)"

text \<open>
  \<open>init\<close> takes "a \<open>ShapeDtype\<close> instance (if this layer takes one input) or a list/tuple of
  \<open>ShapeDtype\<close> instances"; inside the library both are the list of the input signatures.
\<close>

fun signature_list :: "signature_t \<Rightarrow> ShapeDtype list" where
  "signature_list (Sig s) = [s]"
| "signature_list (SigTuple ss) = ss"

subsection \<open>Weights\<close>

text \<open>
  The weights of a layer without sublayers are a tuple of arrays (\<open>()\<close> for a layer without
  weights, \<open>(scale, bias)\<close> for \<open>LayerNorm\<close>); the weights of a combinator are the list of
  the weights of its sublayers, as the notebook prints them for \<open>layer_block\<close>.
\<close>

datatype weights = Tup "ndarray list" | Nest "weights list"

definition EMPTY_WEIGHTS :: weights where
  "EMPTY_WEIGHTS = Tup []"

definition EMPTY_STATE :: weights where
  "EMPTY_STATE = Tup []"

subsection \<open>Layer objects\<close>

text \<open>
  Modelled from the spec: the base class \<open>Layer\<close> is missing. By its quoted docstring a layer
  "computes a function from zero or more inputs to zero or more outputs, optionally using
  trainable weights", and a subclass overrides \<open>forward(inputs, weights)\<close> and
  \<open>new_weights(self, input_signature)\<close>. A layer without sublayers is a \<open>Leaf\<close> with its
  name, \<open>n_in\<close>, \<open>n_out\<close> and these two methods; either method yields \<open>None\<close> where the
  Python raises. A layer object carries its sublayers, its weights and the flag that
  \<open>init\<close> sets.
\<close>

datatype layer_class =
    Leaf string nat nat
         "weights \<Rightarrow> ndarray list \<Rightarrow> ndarray list option"
         "ShapeDtype list \<Rightarrow> weights option"
  | SerialClass
  | BranchClass

datatype layer =
  Layer (cls: layer_class) (sublayers: "layer list") (weights: weights) (init_finished: bool)

text \<open>
  Modelled from the spec: the properties \<open>n_in\<close> and \<open>n_out\<close> of the combinators are missing.
  For \<open>Serial\<close> they are what the data stack needs and leaves: \<open>serial_step\<close> keeps, along
  the sublayers, how many items the stack must hold at the start (\<open>need\<close>) and how many of
  its top items are then left (\<open>depth\<close>); a sublayer that wants more than \<open>depth\<close> items
  raises \<open>need\<close>. For \<open>Branch\<close>, every sublayer reads a copy of the inputs ("Branch(F, G, H)
  will take 3 inputs and give 4 outputs" for arities 1/1, 3/1 and 2/2): the largest \<open>n_in\<close>
  and the sum of the \<open>n_out\<close>.
\<close>

definition serial_step :: "nat \<times> nat \<Rightarrow> nat \<times> nat \<Rightarrow> nat \<times> nat" where
  "serial_step acc io =
     (case (acc, io) of ((need, depth), (i, out)) \<Rightarrow>
        if depth < i then (need + (i - depth), out) else (need, depth - i + out))"

fun arity :: "layer \<Rightarrow> nat \<times> nat" where
  "arity (Layer c subs w fin) =
     (case c of
        Leaf name i out f nw \<Rightarrow> (i, out)
      | SerialClass \<Rightarrow> foldl serial_step (0, 0) (map arity subs)
      | BranchClass \<Rightarrow> (foldr max (map (\<lambda>k. fst (arity k)) subs) 0,
                        sum_list (map (\<lambda>k. snd (arity k)) subs)))"

definition n_in :: "layer \<Rightarrow> nat" where
  "n_in l = fst (arity l)"

definition n_out :: "layer \<Rightarrow> nat" where
  "n_out l = snd (arity l)"

subsection \<open>The forward computation and the data stack\<close>

text \<open>
  Modelled from the spec: the \<open>forward\<close> methods of \<open>Serial\<close> and \<open>Branch\<close> are missing. The
  quoted docstring of \<open>Serial\<close>: a sublayer k "gets called with the data stack in the state
  left after layer j has applied. The Serial combinator then takes n_in items off the top
  of the stack (n_in = k.n_in) and calls layer k, passing those items as arguments; and
  takes layer k's n_out return values (n_out = k.n_out) and pushes them onto the data
  stack." The quoted docstring of \<open>Branch\<close>: "Each layer in the input list is applied to as
  many inputs from the stack as it needs, and their outputs are successively combined on
  stack." The stack is a list with its top first. A call with a number of inputs other
  than \<open>n_in\<close>, a leaf that returns a number of outputs other than its \<open>n_out\<close>, a stack
  that is too short and weights that do not fit the sublayers give \<open>None\<close>.
\<close>

fun forward :: "layer \<Rightarrow> weights \<Rightarrow> ndarray list \<Rightarrow> ndarray list option"
and serial_run :: "layer list \<Rightarrow> weights list \<Rightarrow> ndarray list \<Rightarrow> ndarray list option"
and branch_run :: "layer list \<Rightarrow> weights list \<Rightarrow> ndarray list \<Rightarrow> ndarray list option"
where
  "forward (Layer c subs w0 fin) w xs =
     (if length xs \<noteq> n_in (Layer c subs w0 fin) then None
      else (case c of
              Leaf name i out f nw \<Rightarrow>
                (case f w xs of
                   None \<Rightarrow> None
                 | Some ys \<Rightarrow> if length ys = out then Some ys else None)
            | SerialClass \<Rightarrow>
                (case w of Nest ws \<Rightarrow> serial_run subs ws xs | Tup a \<Rightarrow> None)
            | BranchClass \<Rightarrow>
                (case w of Nest ws \<Rightarrow> branch_run subs ws xs | Tup a \<Rightarrow> None)))"
| "serial_run [] ws stack = (if ws = [] then Some stack else None)"
| "serial_run (k # ks) ws stack =
     (case ws of
        [] \<Rightarrow> None
      | wk # ws' \<Rightarrow>
          if length stack < n_in k then None
          else (case forward k wk (take (n_in k) stack) of
                  None \<Rightarrow> None
                | Some ys \<Rightarrow> serial_run ks ws' (ys @ drop (n_in k) stack)))"
| "branch_run [] ws xs = (if ws = [] then Some [] else None)"
| "branch_run (k # ks) ws xs =
     (case ws of
        [] \<Rightarrow> None
      | wk # ws' \<Rightarrow>
          if length xs < n_in k then None
          else (case forward k wk (take (n_in k) xs) of
                  None \<Rightarrow> None
                | Some ys \<Rightarrow>
                    (case branch_run ks ws' xs of
                       None \<Rightarrow> None
                     | Some zs \<Rightarrow> Some (ys @ zs))))"

text \<open>\<open>y = my_layer(x)\<close>: the layer object is called with the weights it holds.\<close>

definition call :: "layer \<Rightarrow> ndarray list \<Rightarrow> ndarray list option" where
  "call l xs = forward l (weights l) xs"

subsection \<open>Initialization\<close>

text \<open>
  Modelled from the spec: the method \<open>init\<close> of \<open>Layer\<close> is missing. Its quoted docstring:
  "Initializes this layer and its sublayers recursively. This method is designed to
  initialize each layer instance once [...]. Returns: A (weights, state) tuple, in which
  weights contains newly created weights on the first call and \<open>EMPTY_WEIGHTS\<close> on all
  subsequent calls." The object is mutated, so \<open>init\<close> also returns the layer as it is
  after the call. No layer of the notebook draws its weights at random or keeps state, so
  \<open>rng\<close> is passed on unread and the state of a leaf is \<open>EMPTY_STATE\<close>. A sublayer of
  \<open>Serial\<close> is initialized with the signatures of the items it will take off the stack:
  the signatures of a sublayer's outputs are read off its outputs on arrays of zeros of
  the input signatures. A sublayer of \<open>Branch\<close> is initialized with the first signatures of
  the inputs.
\<close>

definition zeros_like :: "ShapeDtype \<Rightarrow> ndarray" where
  "zeros_like s = \<lparr>shape = shape s, dtype = dtype s, items = replicate (prod_list (shape s)) 0\<rparr>"

definition forward_abstract :: "layer \<Rightarrow> ShapeDtype list \<Rightarrow> ShapeDtype list option" where
  "forward_abstract l sigs =
     map_option (map shape_dtype) (forward l (weights l) (map zeros_like sigs))"

fun state :: "layer \<Rightarrow> weights" where
  "state (Layer c subs w fin) =
     (case c of Leaf name i out f nw \<Rightarrow> EMPTY_STATE | _ \<Rightarrow> Nest (map state subs))"

fun init :: "ShapeDtype list \<Rightarrow> nat option \<Rightarrow> layer \<Rightarrow> ((weights \<times> weights) \<times> layer) option"
and init_serial ::
  "ShapeDtype list \<Rightarrow> nat option \<Rightarrow> layer list \<Rightarrow> ((weights \<times> weights) list \<times> layer list) option"
and init_branch ::
  "ShapeDtype list \<Rightarrow> nat option \<Rightarrow> layer list \<Rightarrow> ((weights \<times> weights) list \<times> layer list) option"
where
  "init input_signature rng (Layer c subs w fin) =
     (if fin then Some ((EMPTY_WEIGHTS, state (Layer c subs w fin)), Layer c subs w fin)
      else (case c of
              Leaf name i out f nw \<Rightarrow>
                (case nw input_signature of
                   None \<Rightarrow> None
                 | Some w' \<Rightarrow> Some ((w', EMPTY_STATE), Layer c subs w' True))
            | SerialClass \<Rightarrow>
                (case init_serial input_signature rng subs of
                   None \<Rightarrow> None
                 | Some (wss, subs') \<Rightarrow>
                     Some ((Nest (map fst wss), Nest (map snd wss)),
                           Layer c subs' (Nest (map fst wss)) True))
            | BranchClass \<Rightarrow>
                (case init_branch input_signature rng subs of
                   None \<Rightarrow> None
                 | Some (wss, subs') \<Rightarrow>
                     Some ((Nest (map fst wss), Nest (map snd wss)),
                           Layer c subs' (Nest (map fst wss)) True))))"
| "init_serial stack rng [] = Some ([], [])"
| "init_serial stack rng (k # ks) =
     (if length stack < n_in k then None
      else (case init (take (n_in k) stack) rng k of
              None \<Rightarrow> None
            | Some (ws, k') \<Rightarrow>
                (case forward_abstract k' (take (n_in k) stack) of
                   None \<Rightarrow> None
                 | Some outputs \<Rightarrow>
                     (case init_serial (outputs @ drop (n_in k) stack) rng ks of
                        None \<Rightarrow> None
                      | Some (wss, ks') \<Rightarrow> Some (ws # wss, k' # ks')))))"
| "init_branch sigs rng [] = Some ([], [])"
| "init_branch sigs rng (k # ks) =
     (if length sigs < n_in k then None
      else (case init (take (n_in k) sigs) rng k of
              None \<Rightarrow> None
            | Some (ws, k') \<Rightarrow>
                (case init_branch sigs rng ks of
                   None \<Rightarrow> None
                 | Some (wss, ks') \<Rightarrow> Some (ws # wss, k' # ks'))))"



subsection \<open>The layers of the notebook\<close>

text \<open>
  Modelled from the spec: the class \<open>Relu\<close> is missing. It is the elementwise \<open>max(0, x)\<close>,
  with one input, one output and no weights; the recorded output of Example 1 is the
  check of this definition.
\<close>

definition relu_array :: "ndarray \<Rightarrow> ndarray" where
  "relu_array x = x\<lparr>items := map (\<lambda>v. max 0 v) (items x)\<rparr>"

definition Relu :: layer where
  "Relu = Layer (Leaf ''Relu'' 1 1 (\<lambda>w xs. Some (map relu_array xs)) (\<lambda>sigs. Some EMPTY_WEIGHTS))
            [] EMPTY_WEIGHTS False"

text \<open>
  Modelled from the spec: the class \<open>LayerNorm\<close> is missing. Example 4 records its weights
  after \<open>init\<close> on a \<open>(3, 5)\<close> \<open>float32\<close> signature: a vector of five ones and a vector of five
  zeros, both \<open>float32\<close>, that is one entry per item of the last axis. Its arithmetic
  (mean, variance, square root) is floating point and is a parameter \<open>norm_fn\<close>: the
  normalisation of one array under the weights \<open>scale\<close> and \<open>bias\<close>. A signature without
  axes has no last axis, and unpacking other weights than a pair fails.
\<close>

definition ones :: "nat \<Rightarrow> ndarray" where
  "ones n = \<lparr>shape = [n], dtype = float32, items = replicate n 1\<rparr>"

definition zeros :: "nat \<Rightarrow> ndarray" where
  "zeros n = \<lparr>shape = [n], dtype = float32, items = replicate n 0\<rparr>"

definition LayerNorm_new_weights :: "ShapeDtype list \<Rightarrow> weights option" where
  "LayerNorm_new_weights input_signature =
     (case input_signature of
        [s] \<Rightarrow> (if shape s = [] then None
                else Some (Tup [ones (last (shape s)), zeros (last (shape s))]))
      | _ \<Rightarrow> None)"

definition LayerNorm_forward ::
  "(ndarray \<Rightarrow> ndarray \<Rightarrow> ndarray \<Rightarrow> ndarray) \<Rightarrow> weights \<Rightarrow> ndarray list \<Rightarrow> ndarray list option" where
  "LayerNorm_forward norm_fn w xs =
     (case w of
        Tup [scale, bias] \<Rightarrow> Some (map (norm_fn scale bias) xs)
      | _ \<Rightarrow> None)"

definition LayerNorm :: "(ndarray \<Rightarrow> ndarray \<Rightarrow> ndarray \<Rightarrow> ndarray) \<Rightarrow> layer" where
  "LayerNorm norm_fn =
     Layer (Leaf ''LayerNorm'' 1 1 (LayerNorm_forward norm_fn) LayerNorm_new_weights)
       [] EMPTY_WEIGHTS False"

text \<open>
  Modelled from the spec: the class \<open>Add\<close> is missing. The notebook: "combines the two
  streams back into one by adding elementwise. [n_in = 2, n_out = 1]". Arrays of one
  shape are added item by item; NumPy's broadcasting of arrays of different shapes is
  not modelled and gives \<open>None\<close>.
\<close>

definition add_arrays :: "ndarray \<Rightarrow> ndarray \<Rightarrow> ndarray option" where
  "add_arrays x y =
     (if shape x = shape y then Some (x\<lparr>items := map2 (+) (items x) (items y)\<rparr>) else None)"

definition Add :: layer where
  "Add = Layer (Leaf ''Add'' 2 1
                 (\<lambda>w xs. case xs of [x, y] \<Rightarrow> map_option (\<lambda>z. [z]) (add_arrays x y) | _ \<Rightarrow> None)
                 (\<lambda>sigs. Some EMPTY_WEIGHTS))
           [] EMPTY_WEIGHTS False"

text \<open>
  Modelled from the spec: the function \<open>Fn\<close> is missing. \<open>tl.Fn("Times100", lambda x: x * 100.0)\<close>
  makes a layer without weights out of a name and a Python function; the number of inputs
  is the number of parameters of the function (passed here), the number of outputs is one.
\<close>

definition Fn :: "string \<Rightarrow> nat \<Rightarrow> (ndarray list \<Rightarrow> ndarray) \<Rightarrow> layer" where
  "Fn name n f =
     Layer (Leaf name n 1 (\<lambda>w xs. Some [f xs]) (\<lambda>sigs. Some EMPTY_WEIGHTS)) [] EMPTY_WEIGHTS False"

text \<open>
  Modelled from the spec: the constructors of \<open>Serial\<close> and \<open>Branch\<close> are missing. A new
  combinator holds the weights of its sublayers, as the notebook prints them. In the
  source of \<open>Residual\<close> a sublayer of \<open>Branch\<close> may be \<open>None\<close>, which "signals no-op (copy
  inputs)": the layer \<open>NoOp\<close> hands its one input on.
\<close>

definition NoOp :: layer where
  "NoOp = Layer (Leaf ''NoOp'' 1 1 (\<lambda>w xs. Some xs) (\<lambda>sigs. Some EMPTY_WEIGHTS)) [] EMPTY_WEIGHTS False"

definition Serial :: "layer list \<Rightarrow> layer" where
  "Serial layers = Layer SerialClass layers (Nest (map weights layers)) False"

definition Branch :: "layer option list \<Rightarrow> layer" where
  "Branch layers =
     (let subs = map (\<lambda>l. case l of None \<Rightarrow> NoOp | Some k \<Rightarrow> k) layers
      in Layer BranchClass subs (Nest (map weights subs)) False)"

text \<open>
  \<open>Residual\<close>, from its source as the notebook quotes it:
  \<^verbatim>\<open>
  def Residual(*layers, **kwargs):
    shortcut = kwargs.get('shortcut')  # default None signals no-op (copy inputs)
    layers = _ensure_flat(layers)
    layer = layers[0] if len(layers) == 1 else Serial(layers)
    return Serial(
        Branch(shortcut, layer),
        Add(),
    )
  \<close>
  The layers are passed as a flat list, which \<open>_ensure_flat\<close> leaves as it is, and
  \<open>shortcut\<close> is \<open>None\<close> when \<open>kwargs\<close> is empty.
\<close>

definition Residual :: "layer list \<Rightarrow> layer option \<Rightarrow> layer" where
  "Residual layers shortcut =
     (let layer = (if length layers = 1 then layers ! 0 else Serial layers)
      in Serial [Branch [shortcut, Some layer], Add])"

subsection \<open>The data of the notebook's examples\<close>

text \<open>
  Example 6: \<^verbatim>\<open>times_100 = tl.Fn("Times100", lambda x: x * 100.0)\<close>. The product of an array
  and a Python float is a floating-point array: an integer array becomes \<open>float64\<close> under
  NumPy's promotion, a floating-point array keeps its dtype.
\<close>

definition times_100_fn :: "ndarray \<Rightarrow> ndarray" where
  "times_100_fn x =
     x\<lparr>dtype := (case dtype x of int64 \<Rightarrow> float64 | d \<Rightarrow> d),
       items := map (\<lambda>v. v * 100) (items x)\<rparr>"

definition times_100 :: layer where
  "times_100 = Fn ''Times100'' 1 (\<lambda>xs. times_100_fn (hd xs))"

text \<open>
  Examples 1 and 6: \<^verbatim>\<open>x = np.array([[-2, -1, 0, 1, 2], [-20, -10, 0, 10, 20]])\<close>, an array of
  Python integers, and the outputs recorded for \<open>relu(x)\<close> (\<open>y\<close> of Example 1, \<open>y0\<close> of
  Example 6) and for the second branch (\<open>y1\<close> of Example 6).
\<close>

definition x_example1 :: ndarray where
  "x_example1 = \<lparr>shape = [2, 5], dtype = int64,
                  items = [-2, -1, 0, 1, 2, -20, -10, 0, 10, 20]\<rparr>"

definition y_example1_items :: "real list" where
  "y_example1_items = [0, 0, 0, 1, 2, 0, 0, 0, 10, 20]"

definition y1_example6_items :: "real list" where
  "y1_example6_items = [-200, -100, 0, 100, 200, -2000, -1000, 0, 1000, 2000]"

text \<open>
  Example 4: \<^verbatim>\<open>x = np.array([[-2, -1, 0, 1, 2], [1, 2, 3, 4, 5], [10, 20, 30, 40, 50]]).astype(np.float32)\<close>.
\<close>

definition x_example4 :: ndarray where
  "x_example4 = \<lparr>shape = [3, 5], dtype = float32,
                  items = [-2, -1, 0, 1, 2, 1, 2, 3, 4, 5, 10, 20, 30, 40, 50]\<rparr>"


section \<open>Properties of the configuration file\<close>

lemma gin_file_parsed:
  "map parse_line gin_file =
     [Comment, Comment, Comment, Comment, Comment, Comment, Comment, Comment,
      Comment, Comment, Comment, Comment, Comment, Blank,
      Import ''trax.lr_schedules'', Import ''trax.models'',
      Import ''trax.optimizers'', Import ''trax.supervised.inputs'',
      Import ''trax.supervised.trainer_lib'', Blank, Comment, Comment,
      Binding ''batch_fn.batch_size_per_device'' ''64'',
      Binding ''batch_fn.eval_batch_size'' ''64'',
      Binding ''batch_fn.max_eval_length'' ''512'',
      Binding ''batch_fn.bucket_length'' ''32'',
      Binding ''batch_fn.buckets_include_inputs_in_length'' ''True'', Blank,
      Comment, Comment, Binding ''inputs.data_dir'' ''None'',
      Binding ''inputs.dataset_name'' (sq @ ''t2t_translate_ende_wmt32k'' @ sq),
      Blank, Comment, Comment,
      Binding ''shuffle_and_batch_data.preprocess_fun'' ''@trax.supervised.inputs.wmt_preprocess'',
      Binding ''wmt_preprocess.max_length'' ''256'',
      Binding ''wmt_preprocess.max_eval_length'' ''512'', Blank, Comment,
      Comment, Binding ''lr_schedules.warmup.max_value'' ''0.001'',
      Binding ''lr_schedules.warmup.n_warmup_steps'' ''1000'', Blank, Comment,
      Comment, Binding ''Adam.weight_decay_rate'' ''0.0'', Blank, Comment,
      Comment, Binding ''train.eval_frequency'' ''1000'',
      Binding ''train.eval_steps'' ''10'', Binding ''train.id_to_mask'' ''0'',
      Binding ''train.inputs'' ''@trax.supervised.inputs.inputs'',
      Binding ''train.model'' ''@trax.models.LSTMSeq2SeqAttn'',
      Binding ''train.optimizer'' ''@trax.optimizers.Adam'',
      Binding ''train.lr_schedule'' ''@lr_schedules.warmup'',
      Binding ''train.steps'' ''250000'', Blank, Comment, Comment,
      Binding ''LSTMSeq2SeqAttn.d_model'' ''1024'',
      Binding ''LSTMSeq2SeqAttn.n_encoder_layers'' ''2'',
      Binding ''LSTMSeq2SeqAttn.n_decoder_layers'' ''2'',
      Binding ''LSTMSeq2SeqAttn.attention_dropout'' ''0.2'',
      Binding ''LSTMSeq2SeqAttn.n_attention_heads'' ''8'',
      Binding ''LSTMSeq2SeqAttn.input_vocab_size'' ''33300'',
      Binding ''LSTMSeq2SeqAttn.target_vocab_size'' ''33300'']"
  by (simp add: gin_file_def parse_line_def strip_def is_space_def)

lemma gin_bindings_eq:
  "gin_bindings =
     [(''batch_fn.batch_size_per_device'', IntLit 64),
      (''batch_fn.eval_batch_size'', IntLit 64),
      (''batch_fn.max_eval_length'', IntLit 512),
      (''batch_fn.bucket_length'', IntLit 32),
      (''batch_fn.buckets_include_inputs_in_length'', BoolLit True),
      (''inputs.data_dir'', NoneLit),
      (''inputs.dataset_name'', StrLit ''t2t_translate_ende_wmt32k''),
      (''shuffle_and_batch_data.preprocess_fun'', Reference ''trax.supervised.inputs.wmt_preprocess''),
      (''wmt_preprocess.max_length'', IntLit 256),
      (''wmt_preprocess.max_eval_length'', IntLit 512),
      (''lr_schedules.warmup.max_value'', FloatLit 1 3),
      (''lr_schedules.warmup.n_warmup_steps'', IntLit 1000),
      (''Adam.weight_decay_rate'', FloatLit 0 1),
      (''train.eval_frequency'', IntLit 1000),
      (''train.eval_steps'', IntLit 10),
      (''train.id_to_mask'', IntLit 0),
      (''train.inputs'', Reference ''trax.supervised.inputs.inputs''),
      (''train.model'', Reference ''trax.models.LSTMSeq2SeqAttn''),
      (''train.optimizer'', Reference ''trax.optimizers.Adam''),
      (''train.lr_schedule'', Reference ''lr_schedules.warmup''),
      (''train.steps'', IntLit 250000),
      (''LSTMSeq2SeqAttn.d_model'', IntLit 1024),
      (''LSTMSeq2SeqAttn.n_encoder_layers'', IntLit 2),
      (''LSTMSeq2SeqAttn.n_decoder_layers'', IntLit 2),
      (''LSTMSeq2SeqAttn.attention_dropout'', FloatLit 2 1),
      (''LSTMSeq2SeqAttn.n_attention_heads'', IntLit 8),
      (''LSTMSeq2SeqAttn.input_vocab_size'', IntLit 33300),
      (''LSTMSeq2SeqAttn.target_vocab_size'', IntLit 33300)]"
  by (simp add: gin_bindings_def gin_file_parsed List.map_filter_def parse_value_def is_digit_def
      nat_of_digits_def)

text \<open>
  Claim C3. The configuration file binds the batch sizes (\<open>batch_fn.batch_size_per_device\<close>
  and \<open>batch_fn.eval_batch_size\<close>, both 64), the learning-rate schedule
  (\<open>lr_schedules.warmup\<close> with \<open>max_value\<close> 0.001 and \<open>n_warmup_steps\<close> 1000), the weight
  decay of the optimizer (\<open>Adam.weight_decay_rate\<close> 0.0), the depth and width of the model
  (\<open>n_encoder_layers\<close> 2, \<open>n_decoder_layers\<close> 2, \<open>d_model\<close> 1024), the vocabulary sizes
  (\<open>input_vocab_size\<close> and \<open>target_vocab_size\<close>, both 33300) and the number of training
  steps (\<open>train.steps\<close> 250000), each to a parameter of a named function or class.
\<close>

theorem gin_binds_hyperparameters:
  "gin_lookup ''batch_fn.batch_size_per_device'' = Some (IntLit 64)
   \<and> gin_lookup ''batch_fn.eval_batch_size'' = Some (IntLit 64)
   \<and> gin_lookup ''lr_schedules.warmup.max_value'' = Some (FloatLit 1 3)
   \<and> gin_lookup ''lr_schedules.warmup.n_warmup_steps'' = Some (IntLit 1000)
   \<and> gin_lookup ''Adam.weight_decay_rate'' = Some (FloatLit 0 1)
   \<and> gin_lookup ''LSTMSeq2SeqAttn.n_encoder_layers'' = Some (IntLit 2)
   \<and> gin_lookup ''LSTMSeq2SeqAttn.n_decoder_layers'' = Some (IntLit 2)
   \<and> gin_lookup ''LSTMSeq2SeqAttn.d_model'' = Some (IntLit 1024)
   \<and> gin_lookup ''LSTMSeq2SeqAttn.input_vocab_size'' = Some (IntLit 33300)
   \<and> gin_lookup ''LSTMSeq2SeqAttn.target_vocab_size'' = Some (IntLit 33300)
   \<and> gin_lookup ''train.steps'' = Some (IntLit 250000)
   \<and> number_of (FloatLit 1 3) = Some (1 / 1000) \<and> number_of (FloatLit 0 1) = Some 0
   \<and> remdups (map (\<lambda>b. configurable_of (fst b)) gin_bindings) =
        [''batch_fn'', ''inputs'', ''shuffle_and_batch_data'', ''wmt_preprocess'',
         ''lr_schedules.warmup'', ''Adam'', ''train'', ''LSTMSeq2SeqAttn'']"
  by (simp add: gin_lookup_def gin_bindings_eq configurable_of_def number_of_def)

text \<open>
  Claim C4, as stated: every binding of the file assigns a scalar value. It fails at line
  54, \<^verbatim>\<open>train.inputs = @trax.supervised.inputs.inputs\<close>, whose value is a reference to a
  configurable function of the framework.
\<close>

theorem gin_binding_not_scalar:
  "gin_file ! 53 = ''train.inputs = @trax.supervised.inputs.inputs''
   \<and> parse_line (gin_file ! 53) = Binding ''train.inputs'' ''@trax.supervised.inputs.inputs''
   \<and> parse_value ''@trax.supervised.inputs.inputs'' = Reference ''trax.supervised.inputs.inputs''
   \<and> \<not> is_scalar (Reference ''trax.supervised.inputs.inputs'')
   \<and> \<not> list_all (\<lambda>b. is_scalar (snd b)) gin_bindings"
  by (simp add: gin_file_def parse_line_def strip_def is_space_def parse_value_def is_scalar_def
      gin_bindings_eq)

text \<open>
  Claim C4, amended. Every binding of the file assigns either a scalar literal (\<open>None\<close>, a
  truth value, an integer, a decimal or a string) or a reference \<open>@name\<close> to a function or
  class of the framework; 23 of the 28 bindings are scalars and five are references:
  \<open>shuffle_and_batch_data.preprocess_fun\<close>, \<open>train.inputs\<close>, \<open>train.model\<close>,
  \<open>train.optimizer\<close> and \<open>train.lr_schedule\<close>.
\<close>

theorem gin_bindings_scalar_or_reference:
  "list_all (\<lambda>b. is_scalar (snd b) \<or> is_reference (snd b)) gin_bindings
   \<and> length gin_bindings = 28
   \<and> length (filter (\<lambda>b. is_scalar (snd b)) gin_bindings) = 23
   \<and> map fst (filter (\<lambda>b. is_reference (snd b)) gin_bindings) =
        [''shuffle_and_batch_data.preprocess_fun'', ''train.inputs'', ''train.model'',
         ''train.optimizer'', ''train.lr_schedule'']"
  by (simp add: gin_bindings_eq is_scalar_def is_reference_def)

text \<open>
  Claim C8, as stated: every line of the file that is neither blank nor a comment is an
  assignment of a value to a key. It fails at line 15, \<^verbatim>\<open>import trax.lr_schedules\<close>.
\<close>

theorem gin_line_not_assignment:
  "gin_file ! 14 = ''import trax.lr_schedules''
   \<and> parse_line (gin_file ! 14) = Import ''trax.lr_schedules''
   \<and> \<not> is_blank (parse_line (gin_file ! 14))
   \<and> \<not> is_comment (parse_line (gin_file ! 14))
   \<and> \<not> is_binding (parse_line (gin_file ! 14))"
  by (simp add: gin_file_def parse_line_def strip_def is_space_def is_blank_def is_comment_def
      is_binding_def)

text \<open>
  Claim C8, amended. Every line of the file that is neither blank nor a comment is either
  an \<open>import\<close> statement or an assignment \<open>key = value\<close>: of its 68 lines, five are imports
  (lines 15 to 19) and 28 are assignments; no line is anything else.
\<close>

theorem gin_lines_import_or_assignment:
  "list_all (\<lambda>l. is_blank (parse_line l) \<or> is_comment (parse_line l) \<or>
                 is_import (parse_line l) \<or> is_binding (parse_line l)) gin_file
   \<and> length gin_file = 68
   \<and> filter is_import (map parse_line gin_file) =
        [Import ''trax.lr_schedules'', Import ''trax.models'', Import ''trax.optimizers'',
         Import ''trax.supervised.inputs'', Import ''trax.supervised.trainer_lib'']
   \<and> map parse_line (take 5 (drop 14 gin_file)) = filter is_import (map parse_line gin_file)
   \<and> length (filter is_binding (map parse_line gin_file)) = 28"
proof -
  have all: "list_all (\<lambda>g. is_blank g \<or> is_comment g \<or> is_import g \<or> is_binding g)
               (map parse_line gin_file)"
    unfolding gin_file_parsed
    by (simp add: is_blank_def is_comment_def is_import_def is_binding_def)
  have len: "length (map parse_line gin_file) = 68"
    unfolding gin_file_parsed by simp
  have imps: "filter is_import (map parse_line gin_file) =
        [Import ''trax.lr_schedules'', Import ''trax.models'', Import ''trax.optimizers'',
         Import ''trax.supervised.inputs'', Import ''trax.supervised.trainer_lib'']"
    unfolding gin_file_parsed by (simp add: is_import_def)
  have lines: "take 5 (drop 14 (map parse_line gin_file)) =
        [Import ''trax.lr_schedules'', Import ''trax.models'', Import ''trax.optimizers'',
         Import ''trax.supervised.inputs'', Import ''trax.supervised.trainer_lib'']"
    unfolding gin_file_parsed by simp
  have bindings: "length (filter is_binding (map parse_line gin_file)) = 28"
    unfolding gin_file_parsed by (simp add: is_binding_def)
  from all have "list_all (\<lambda>l. is_blank (parse_line l) \<or> is_comment (parse_line l) \<or>
                 is_import (parse_line l) \<or> is_binding (parse_line l)) gin_file"
    by (simp add: list_all_iff)
  moreover from len have "length gin_file = 68" by simp
  moreover from lines imps
  have "map parse_line (take 5 (drop 14 gin_file)) = filter is_import (map parse_line gin_file)"
    by (simp add: take_map drop_map)
  ultimately show ?thesis using imps bindings by blast
qed

section \<open>Properties of the notebook's code cells\<close>

lemmas scan_defs = line_calls_def is_space_def is_ident_char_def

lemma calls_setup_numpy: "concat (map line_calls cell_setup_numpy) = []"
  by (simp add: cell_setup_numpy_def scan_defs)

lemma calls_import_trax: "concat (map line_calls cell_import_trax) = []"
  by (simp add: cell_import_trax_def scan_defs)

lemma calls_utilities: "concat (map line_calls cell_utilities) = []"
  by (simp add: cell_utilities_def scan_defs)

lemma calls_example1: "concat (map line_calls cell_example1_relu) = [''Relu'']"
  by (simp add: cell_example1_relu_def scan_defs)

lemma calls_example2: "concat (map line_calls cell_example2_concatenate) = [''Concatenate'']"
  by (simp add: cell_example2_concatenate_def scan_defs)

lemma calls_example3: "concat (map line_calls cell_example3_concatenate3) = [''Concatenate'']"
  by (simp add: cell_example3_concatenate3_def scan_defs)

lemma calls_example4: "concat (map line_calls cell_example4_layer_norm) = [''LayerNorm'']"
  by (simp add: cell_example4_layer_norm_def scan_defs)

lemma calls_example5:
  "concat (map line_calls cell_example5_serial) = [''Serial'', ''Relu'', ''LayerNorm'']"
  by (simp add: cell_example5_serial_def scan_defs)

lemma calls_example5_inspect: "concat (map line_calls cell_example5_inspect) = []"
  by (simp add: cell_example5_inspect_def scan_defs)

lemma calls_example6: "concat (map line_calls cell_example6_branch) = [''Relu'', ''Fn'', ''Branch'']"
  by (simp add: cell_example6_branch_def scan_defs)

lemma tl_calls_notebook:
  "tl_calls notebook_code =
     [''Relu'', ''Concatenate'', ''Concatenate'', ''LayerNorm'', ''Serial'', ''Relu'', ''LayerNorm'',
      ''Relu'', ''Fn'', ''Branch'']"
  by (simp add: tl_calls_def notebook_code_def calls_setup_numpy calls_import_trax calls_utilities
      calls_example1 calls_example2 calls_example3 calls_example4 calls_example5
      calls_example5_inspect calls_example6)

text \<open>
  Claim C5, as stated: every layer constructor called in the code cells is one of \<open>Serial\<close>,
  \<open>Branch\<close>, \<open>Concatenate\<close>, \<open>Relu\<close> and \<open>LayerNorm\<close>. It fails at the second line of the
  last code cell, \<^verbatim>\<open>times_100 = tl.Fn("Times100", lambda x: x * 100.0)\<close>, which calls \<open>Fn\<close>.
\<close>

theorem notebook_calls_Fn:
  \<open>cell_example6_branch ! 1 = ''times_100 = tl.Fn("Times100", lambda x: x * 100.0)''
   \<and> line_calls (cell_example6_branch ! 1) = [''Fn'']
   \<and> cell_example6_branch \<in> set notebook_code
   \<and> ''Fn'' \<in> set (tl_calls notebook_code)
   \<and> ''Fn'' \<notin> set spec_layer_api\<close>
proof -
  have \<open>cell_example6_branch ! 1 = ''times_100 = tl.Fn("Times100", lambda x: x * 100.0)''\<close>
    by (simp add: cell_example6_branch_def)
  moreover have \<open>line_calls ''times_100 = tl.Fn("Times100", lambda x: x * 100.0)'' = [''Fn'']\<close>
    by (simp add: scan_defs)
  moreover have "cell_example6_branch \<in> set notebook_code"
    by (simp add: notebook_code_def)
  moreover have "''Fn'' \<in> set (tl_calls notebook_code)"
    by (simp add: tl_calls_notebook)
  moreover have "''Fn'' \<notin> set spec_layer_api"
    by (simp add: spec_layer_api_def)
  ultimately show ?thesis by simp
qed

text \<open>
  Claim C5, amended. Every layer constructor called in the code cells of the notebook is
  one of \<open>Serial\<close>, \<open>Branch\<close>, \<open>Concatenate\<close>, \<open>Relu\<close>, \<open>LayerNorm\<close> and \<open>Fn\<close>; each of the six
  is called, in ten calls in all, and no other layer constructor is.
\<close>

theorem notebook_layer_constructors:
  "set (tl_calls notebook_code) = set spec_layer_api \<union> {''Fn''}
   \<and> length (tl_calls notebook_code) = 10
   \<and> remdups (tl_calls notebook_code) =
        [''Concatenate'', ''Serial'', ''LayerNorm'', ''Relu'', ''Fn'', ''Branch'']"
  by (auto simp add: tl_calls_notebook spec_layer_api_def)

section \<open>Properties of the layer library\<close>

subsection \<open>A layer returns as many outputs as it promises\<close>

lemma serial_arith:
  fixes N need d e D r :: nat
  assumes "N - (need + d) \<le> e - d" and "r = D + (e - d - (N - (need + d)))"
    and "d \<le> e" and "need + d \<le> N"
  shows "N - need \<le> e \<and> r = D + (e - (N - need))"
proof -
  obtain m where N: "N = need + d + m" using assms(4) by (metis le_Suc_ex)
  obtain f where e: "e = d + f" using assms(3) by (metis le_Suc_ex)
  from assms(1) N e have "m \<le> f" by simp
  with assms(2) N e show ?thesis by simp
qed

lemma serial_step_mono: "fst acc \<le> fst (serial_step acc io)"
  by (cases acc; cases io) (auto simp: serial_step_def)

lemma foldl_serial_step_mono: "fst acc \<le> fst (foldl serial_step acc ios)"
proof (induction ios arbitrary: acc)
  case Nil
  then show ?case by simp
next
  case (Cons io ios)
  have "fst acc \<le> fst (serial_step acc io)" by (rule serial_step_mono)
  also have "\<dots> \<le> fst (foldl serial_step (serial_step acc io) ios)" by (rule Cons.IH)
  finally show ?case by simp
qed

text \<open>
  The three statements go together, along the recursion of \<open>forward\<close>. For \<open>serial_run\<close>
  the stack holds \<open>depth + e\<close> items when the sublayers \<open>ks\<close> start, \<open>e\<close> of them below the
  \<open>depth\<close> items that \<open>serial_step\<close> has counted so far.
\<close>

lemma forward_lengths:
  "\<forall>ys. forward l w xs = Some ys \<longrightarrow> length ys = n_out l"
  "\<forall>res need depth e. serial_run ks ws stack = Some res \<longrightarrow> length stack = depth + e \<longrightarrow>
      fst (foldl serial_step (need, depth) (map arity ks)) - need \<le> e \<and>
      length res = snd (foldl serial_step (need, depth) (map arity ks))
                   + (e - (fst (foldl serial_step (need, depth) (map arity ks)) - need))"
  "\<forall>res. branch_run js vs zs = Some res \<longrightarrow> length res = sum_list (map (\<lambda>k. snd (arity k)) js)"
proof (induction l w xs and ks ws stack and js vs zs rule: forward_serial_run_branch_run.induct)
  case (1 c subs w0 fin w xs)
  show ?case
  proof (cases c)
    case (Leaf name i out f nw)
    then show ?thesis by (auto simp: n_out_def split: option.splits if_splits)
  next
    case SerialClass
    show ?thesis
    proof (intro allI impI)
      fix ys
      assume a: "forward (Layer c subs w0 fin) w xs = Some ys"
      from a have len: "length xs = n_in (Layer c subs w0 fin)" by (auto split: if_splits)
      from a len SerialClass obtain ws' where w: "w = Nest ws'" and run: "serial_run subs ws' xs = Some ys"
        by (auto split: if_splits weights.splits)
      from len SerialClass have len': "length xs = fst (foldl serial_step (0, 0) (map arity subs))"
        by (simp add: n_in_def)
      have nlen: "\<not> length xs \<noteq> n_in (Layer c subs w0 fin)" using len by simp
      note IH = "1.IH"(1)[OF nlen SerialClass w, rule_format, OF run]
      have "length ys = snd (foldl serial_step (0, 0) (map arity subs))
                   + (length xs - (fst (foldl serial_step (0, 0) (map arity subs)) - 0))"
        using IH[where depth = 0 and e = "length xs" and need = 0] by simp
      with len' show "length ys = n_out (Layer c subs w0 fin)"
        using SerialClass by (simp add: n_out_def)
    qed
  next
    case BranchClass
    show ?thesis
    proof (intro allI impI)
      fix ys
      assume a: "forward (Layer c subs w0 fin) w xs = Some ys"
      from a have len: "length xs = n_in (Layer c subs w0 fin)" by (auto split: if_splits)
      from a len BranchClass obtain ws' where w: "w = Nest ws'" and run: "branch_run subs ws' xs = Some ys"
        by (auto split: if_splits weights.splits)
      have nlen: "\<not> length xs \<noteq> n_in (Layer c subs w0 fin)" using len by simp
      from "1.IH"(2)[OF nlen BranchClass w] run
      show "length ys = n_out (Layer c subs w0 fin)"
        using BranchClass by (simp add: n_out_def)
    qed
  qed
next
  case (2 ws stack)
  then show ?case by (auto split: if_splits)
next
  case (3 k ks ws stack)
  show ?case
  proof (intro allI impI)
    fix res need depth e
    assume run: "serial_run (k # ks) ws stack = Some res" and len: "length stack = depth + e"
    from run obtain wk ws' where ws: "ws = wk # ws'" by (cases ws) auto
    from run ws have ge: "\<not> length stack < n_in k" by (auto split: if_splits)
    from run ws ge obtain ys where f: "forward k wk (take (n_in k) stack) = Some ys"
      and rest: "serial_run ks ws' (ys @ drop (n_in k) stack) = Some res"
      by (auto split: option.splits)
    from "3.IH"(1)[OF ws ge] f have ly: "length ys = n_out k" by simp
    note IH2 = "3.IH"(2)[OF ws ge f, rule_format, OF rest]
    obtain i out where ar: "arity k = (i, out)" by (cases "arity k")
    then have ni: "n_in k = i" and no: "n_out k = out" by (simp_all add: n_in_def n_out_def)
    let ?acc' = "serial_step (need, depth) (i, out)"
    let ?F = "foldl serial_step ?acc' (map arity ks)"
    have mono: "fst ?acc' \<le> fst ?F" by (rule foldl_serial_step_mono)
    show "fst (foldl serial_step (need, depth) (map arity (k # ks))) - need \<le> e \<and>
       length res = snd (foldl serial_step (need, depth) (map arity (k # ks))) +
         (e - (fst (foldl serial_step (need, depth) (map arity (k # ks))) - need))"
    proof (cases "depth < i")
      case True
      then have acc: "?acc' = (need + (i - depth), out)" by (simp add: serial_step_def)
      have F: "foldl serial_step (need, depth) (map arity (k # ks)) =
               foldl serial_step (need + (i - depth), out) (map arity ks)"
        using ar acc by simp
      define N where "N = fst (foldl serial_step (need + (i - depth), out) (map arity ks))"
      define D where "D = snd (foldl serial_step (need + (i - depth), out) (map arity ks))"
      have l2: "length (ys @ drop (n_in k) stack) = out + (e - (i - depth))"
        using ly ni no len ge True by simp
      have h: "N - (need + (i - depth)) \<le> e - (i - depth) \<and>
               length res = D + (e - (i - depth) - (N - (need + (i - depth))))"
        unfolding N_def D_def
        by (rule IH2[where depth = out and e = "e - (i - depth)" and need = "need + (i - depth)", OF l2])
      have h3: "i - depth \<le> e" using ge ni len by simp
      have h4: "need + (i - depth) \<le> N" using mono acc by (simp add: N_def)
      have "N - need \<le> e \<and> length res = D + (e - (N - need))"
        using h h3 h4 by (intro serial_arith[of N need "i - depth" e "length res" D]) simp_all
      then show ?thesis unfolding F N_def D_def .
    next
      case False
      then have acc: "?acc' = (need, depth - i + out)" by (simp add: serial_step_def)
      have F: "foldl serial_step (need, depth) (map arity (k # ks)) =
               foldl serial_step (need, depth - i + out) (map arity ks)"
        using ar acc by simp
      have l2: "length (ys @ drop (n_in k) stack) = (depth - i + out) + e"
        using ly ni no len ge False by simp
      show ?thesis unfolding F
        by (rule IH2[where depth = "depth - i + out" and e = e and need = need, OF l2])
    qed
  qed
next
  case (4 ws xs)
  then show ?case by (auto split: if_splits)
next
  case (5 k ks ws xs)
  show ?case
  proof (intro allI impI)
    fix res
    assume run: "branch_run (k # ks) ws xs = Some res"
    from run obtain wk ws' where ws: "ws = wk # ws'" by (cases ws) auto
    from run ws have ge: "\<not> length xs < n_in k" by (auto split: if_splits)
    from run ws ge obtain ys zs where f: "forward k wk (take (n_in k) xs) = Some ys"
      and rest: "branch_run ks ws' xs = Some zs" and res: "res = ys @ zs"
      by (auto split: option.splits)
    from "5.IH"(1)[OF ws ge] f have "length ys = n_out k" by simp
    moreover from "5.IH"(2)[OF ws ge f] rest
    have "length zs = sum_list (map (\<lambda>k. snd (arity k)) ks)" by simp
    ultimately show "length res = sum_list (map (\<lambda>k. snd (arity k)) (k # ks))"
      using res by (simp add: n_out_def)
  qed
qed

lemma forward_n_out: "forward l w xs = Some ys \<Longrightarrow> length ys = n_out l"
  using forward_lengths(1) by blast

lemma forward_n_in: "forward l w xs = Some ys \<Longrightarrow> length xs = n_in l"
  by (cases l) (auto split: if_splits)

subsection \<open>Arities of the layers of the notebook\<close>

lemma arity_Relu: "arity Relu = (1, 1)"
  by (simp add: Relu_def)

lemma arity_LayerNorm: "arity (LayerNorm norm_fn) = (1, 1)"
  by (simp add: LayerNorm_def)

lemma arity_Add: "arity Add = (2, 1)"
  by (simp add: Add_def)

lemma arity_NoOp: "arity NoOp = (1, 1)"
  by (simp add: NoOp_def)

lemma arity_times_100: "arity times_100 = (1, 1)"
  by (simp add: times_100_def Fn_def)

lemma n_in_Relu: "n_in Relu = 1" and n_out_Relu: "n_out Relu = 1"
  by (simp_all add: n_in_def n_out_def arity_Relu)

lemma n_in_LayerNorm: "n_in (LayerNorm norm_fn) = 1" and n_out_LayerNorm: "n_out (LayerNorm norm_fn) = 1"
  by (simp_all add: n_in_def n_out_def arity_LayerNorm)

lemma n_in_Add: "n_in Add = 2" and n_out_Add: "n_out Add = 1"
  by (simp_all add: n_in_def n_out_def arity_Add)

lemma n_in_NoOp: "n_in NoOp = 1" and n_out_NoOp: "n_out NoOp = 1"
  by (simp_all add: n_in_def n_out_def arity_NoOp)

lemma n_in_times_100: "n_in times_100 = 1" and n_out_times_100: "n_out times_100 = 1"
  by (simp_all add: n_in_def n_out_def arity_times_100)

lemma arity_Serial: "arity (Serial ks) = foldl serial_step (0, 0) (map arity ks)"
  by (simp add: Serial_def)

lemma forward_Serial:
  "forward (Serial ks) (Nest ws) xs =
     (if length xs \<noteq> n_in (Serial ks) then None else serial_run ks ws xs)"
  by (simp add: Serial_def)

lemma forward_Relu: "forward Relu w [x] = Some [relu_array x]"
  by (simp add: Relu_def n_in_def)

lemma forward_times_100: "forward times_100 w [x] = Some [times_100_fn x]"
  by (simp add: times_100_def Fn_def n_in_def)

lemma forward_NoOp: "forward NoOp w [x] = Some [x]"
  by (simp add: NoOp_def n_in_def)

lemma forward_Add:
  "forward Add w [x, y] = map_option (\<lambda>z. [z]) (add_arrays x y)"
  by (simp add: Add_def n_in_def split: option.splits)

lemma forward_LayerNorm:
  "forward (LayerNorm norm_fn) (Tup [scale, bias]) [x] = Some [norm_fn scale bias x]"
  by (simp add: LayerNorm_def LayerNorm_forward_def n_in_def)

subsection \<open>Serial and the data stack\<close>

lemma serial_run_step:
  "\<not> length stack < n_in k \<Longrightarrow>
   serial_run (k # ks) (wk # ws) stack =
     Option.bind (forward k wk (take (n_in k) stack))
       (\<lambda>ys. serial_run ks ws (ys @ drop (n_in k) stack))"
  by (simp split: option.splits)

lemma serial_two_layers:
  assumes f: "n_in f = 1" "n_out f = 1" and g: "n_in g = 1" "n_out g = 1"
  shows "forward (Serial [f, g]) (Nest [w1, w2]) [x] = Option.bind (forward f w1 [x]) (forward g w2)"
proof -
  have arf: "arity f = (1, 1)" and arg: "arity g = (1, 1)"
    using f g by (simp_all add: n_in_def n_out_def prod_eq_iff)
  have nin: "n_in (Serial [f, g]) = 1"
    by (simp add: n_in_def arity_Serial arf arg serial_step_def)
  show ?thesis
  proof (cases "forward f w1 [x]")
    case None
    then show ?thesis using nin f by (simp add: forward_Serial)
  next
    case (Some ys)
    then have "length ys = 1" using forward_n_out[OF Some] f by simp
    then obtain y where ys: "ys = [y]" by (cases ys) auto
    show ?thesis
    proof (cases "forward g w2 [y]")
      case None
      then show ?thesis using nin f g Some ys by (simp add: forward_Serial)
    next
      case (Some zs)
      then show ?thesis using nin f g \<open>forward f w1 [x] = Some ys\<close> ys
        by (simp add: forward_Serial)
    qed
  qed
qed

text \<open>
  Claim C1. Applying a \<open>Serial\<close> combinator moves data between its sublayers via the data
  stack: for each sublayer \<open>k\<close> in order, it takes \<open>n_in k\<close> items off the top of the stack,
  calls \<open>k\<close> with them and pushes the outputs of \<open>k\<close>, of which there are \<open>n_out k\<close>, back
  onto the stack. Hence for two sublayers \<open>f\<close> and \<open>g\<close> with one input and one output each,
  \<open>Serial(f, g)\<close> applied to a single input \<open>x\<close> is \<open>g(f(x))\<close>, failing where \<open>f\<close> or \<open>g\<close>
  fails; in particular \<open>Serial(Relu(), LayerNorm())\<close> computes the layer normalisation of
  \<open>relu(x)\<close> for every array \<open>x\<close> and all weights \<open>(scale, bias)\<close>.
\<close>

theorem serial_data_stack_composition:
  "(\<not> length stack < n_in k \<longrightarrow>
      serial_run (k # ks) (wk # ws) stack =
        Option.bind (forward k wk (take (n_in k) stack))
          (\<lambda>ys. serial_run ks ws (ys @ drop (n_in k) stack)))
   \<and> (forward k wk xs = Some ys \<longrightarrow> length xs = n_in k \<and> length ys = n_out k)
   \<and> (n_in f = 1 \<and> n_out f = 1 \<and> n_in g = 1 \<and> n_out g = 1 \<longrightarrow>
        forward (Serial [f, g]) (Nest [w1, w2]) [x] = Option.bind (forward f w1 [x]) (forward g w2))
   \<and> forward (Serial [Relu, LayerNorm norm_fn]) (Nest [EMPTY_WEIGHTS, Tup [scale, bias]]) [x]
        = Some [norm_fn scale bias (relu_array x)]"
proof (intro conjI impI)
  assume "\<not> length stack < n_in k"
  then show "serial_run (k # ks) (wk # ws) stack =
        Option.bind (forward k wk (take (n_in k) stack))
          (\<lambda>ys. serial_run ks ws (ys @ drop (n_in k) stack))"
    by (rule serial_run_step)
next
  assume "forward k wk xs = Some ys"
  then show "length xs = n_in k" by (rule forward_n_in)
next
  assume "forward k wk xs = Some ys"
  then show "length ys = n_out k" by (rule forward_n_out)
next
  assume "n_in f = 1 \<and> n_out f = 1 \<and> n_in g = 1 \<and> n_out g = 1"
  then show "forward (Serial [f, g]) (Nest [w1, w2]) [x] = Option.bind (forward f w1 [x]) (forward g w2)"
    by (simp add: serial_two_layers)
next
  have "forward (Serial [Relu, LayerNorm norm_fn]) (Nest [EMPTY_WEIGHTS, Tup [scale, bias]]) [x]
      = Option.bind (forward Relu EMPTY_WEIGHTS [x]) (forward (LayerNorm norm_fn) (Tup [scale, bias]))"
    by (rule serial_two_layers) (simp_all add: n_in_def n_out_def arity_Relu arity_LayerNorm)
  then show "forward (Serial [Relu, LayerNorm norm_fn]) (Nest [EMPTY_WEIGHTS, Tup [scale, bias]]) [x]
        = Some [norm_fn scale bias (relu_array x)]"
    by (simp add: forward_Relu forward_LayerNorm)
qed

theorem serial_data_stack_composition_witness:
  "\<not> length [x_example1] < n_in Relu
   \<and> serial_run [Relu, times_100] [EMPTY_WEIGHTS, EMPTY_WEIGHTS] [x_example1]
       = Some [times_100_fn (relu_array x_example1)]
   \<and> forward Relu EMPTY_WEIGHTS [x_example1] = Some [relu_array x_example1]
   \<and> length [x_example1] = n_in Relu \<and> length [relu_array x_example1] = n_out Relu
   \<and> n_in Relu = 1 \<and> n_out Relu = 1 \<and> n_in times_100 = 1 \<and> n_out times_100 = 1
   \<and> forward (Serial [Relu, times_100]) (Nest [EMPTY_WEIGHTS, EMPTY_WEIGHTS]) [x_example1]
       = Some [times_100_fn (relu_array x_example1)]
   \<and> items (times_100_fn (relu_array x_example1)) = [0, 0, 0, 100, 200, 0, 0, 0, 1000, 2000]"
  using serial_data_stack_composition[of "[x_example1]" Relu "[times_100]" EMPTY_WEIGHTS
      "[EMPTY_WEIGHTS]" "[x_example1]" "[relu_array x_example1]" Relu times_100
      EMPTY_WEIGHTS EMPTY_WEIGHTS x_example1]
  by (simp add: n_in_def n_out_def arity_Relu arity_times_100 forward_Relu forward_times_100
      times_100_fn_def relu_array_def x_example1_def)

subsection \<open>Branch\<close>

lemma arity_Branch:
  "arity (Branch ls) =
     (foldr max (map (\<lambda>l. fst (arity (case l of None \<Rightarrow> NoOp | Some k \<Rightarrow> k))) ls) 0,
      sum_list (map (\<lambda>l. snd (arity (case l of None \<Rightarrow> NoOp | Some k \<Rightarrow> k))) ls))"
  by (simp add: Branch_def comp_def)

lemma forward_Branch:
  "forward (Branch ls) (Nest ws) xs =
     (if length xs \<noteq> n_in (Branch ls) then None
      else branch_run (map (\<lambda>l. case l of None \<Rightarrow> NoOp | Some k \<Rightarrow> k) ls) ws xs)"
  by (simp add: Branch_def)

lemma weights_Branch:
  "weights (Branch ls) = Nest (map (\<lambda>l. weights (case l of None \<Rightarrow> NoOp | Some k \<Rightarrow> k)) ls)"
  by (simp add: Branch_def comp_def)

lemma branch_three_layers:
  assumes F: "n_in F = 1" and G: "n_in G = 3" and H: "n_in H = 2"
  shows "branch_run [F, G, H] [wF, wG, wH] [a, b, c] =
     Option.bind (forward F wF [a]) (\<lambda>fa.
       Option.bind (forward G wG [a, b, c]) (\<lambda>ga.
         Option.bind (forward H wH [a, b]) (\<lambda>ha. Some (fa @ ga @ ha))))"
  using F G H by (simp split: option.splits)

text \<open>
  Claim C2. \<open>Branch\<close> makes one layer of several: it applies each of the given layers to a
  copy of the inputs, each layer reading as many items from the top of the stack as it
  needs, and puts their outputs together in order. For layers \<open>F\<close> (1 input, 1 output),
  \<open>G\<close> (3 inputs, 1 output) and \<open>H\<close> (2 inputs, 2 outputs), \<open>Branch(F, G, H)\<close> takes the 3
  inputs \<open>a, b, c\<close> and gives the 4 outputs \<open>F(a)\<close>, \<open>G(a, b, c)\<close>, \<open>h1\<close>, \<open>h2\<close> with
  \<open>(h1, h2) = H(a, b)\<close>. In particular \<open>Branch(relu, times_100)\<close> applied to a single input
  \<open>x\<close> yields the two outputs \<open>relu(x)\<close> and \<open>100 * x\<close>, and on the array of Example 6 these
  are the recorded outputs \<open>y0\<close> and \<open>y1\<close>.
\<close>

theorem branch_parallel_outputs:
  "(n_in F = 1 \<and> n_out F = 1 \<and> n_in G = 3 \<and> n_out G = 1 \<and> n_in H = 2 \<and> n_out H = 2 \<longrightarrow>
      n_in (Branch [Some F, Some G, Some H]) = 3
      \<and> n_out (Branch [Some F, Some G, Some H]) = 4
      \<and> forward (Branch [Some F, Some G, Some H]) (Nest [wF, wG, wH]) [a, b, c] =
          Option.bind (forward F wF [a]) (\<lambda>fa.
            Option.bind (forward G wG [a, b, c]) (\<lambda>ga.
              Option.bind (forward H wH [a, b]) (\<lambda>ha. Some (fa @ ga @ ha))))
      \<and> (forward (Branch [Some F, Some G, Some H]) (Nest [wF, wG, wH]) [a, b, c] = Some out \<longrightarrow>
           length out = 4 \<and> forward F wF [a] = Some [out ! 0]
           \<and> forward G wG [a, b, c] = Some [out ! 1] \<and> forward H wH [a, b] = Some [out ! 2, out ! 3]))
   \<and> n_in (Branch [Some Relu, Some times_100]) = 1
   \<and> n_out (Branch [Some Relu, Some times_100]) = 2
   \<and> call (Branch [Some Relu, Some times_100]) [x] = Some [relu_array x, times_100_fn x]
   \<and> items (times_100_fn x) = map (\<lambda>v. 100 * v) (items x)
   \<and> shape (times_100_fn x) = shape x
   \<and> map items (the (call (Branch [Some Relu, Some times_100]) [x_example1]))
        = [y_example1_items, y1_example6_items]"
proof (intro conjI impI)
  assume ar: "n_in F = 1 \<and> n_out F = 1 \<and> n_in G = 3 \<and> n_out G = 1 \<and> n_in H = 2 \<and> n_out H = 2"
  then have arF: "arity F = (1, 1)" and arG: "arity G = (3, 1)" and arH: "arity H = (2, 2)"
    by (simp_all add: n_in_def n_out_def prod_eq_iff)
  show nin: "n_in (Branch [Some F, Some G, Some H]) = 3"
    by (simp add: n_in_def arity_Branch arF arG arH)
  show nout: "n_out (Branch [Some F, Some G, Some H]) = 4"
    by (simp add: n_out_def arity_Branch arF arG arH)
  show run: "forward (Branch [Some F, Some G, Some H]) (Nest [wF, wG, wH]) [a, b, c] =
          Option.bind (forward F wF [a]) (\<lambda>fa.
            Option.bind (forward G wG [a, b, c]) (\<lambda>ga.
              Option.bind (forward H wH [a, b]) (\<lambda>ha. Some (fa @ ga @ ha))))"
  proof -
    from ar have nF: "n_in F = 1" and nG: "n_in G = 3" and nH: "n_in H = 2" by simp_all
    have "forward (Branch [Some F, Some G, Some H]) (Nest [wF, wG, wH]) [a, b, c] =
          branch_run [F, G, H] [wF, wG, wH] [a, b, c]"
      by (simp add: forward_Branch nin del: forward.simps)
    then show ?thesis by (simp only: branch_three_layers[OF nF nG nH])
  qed
  assume out: "forward (Branch [Some F, Some G, Some H]) (Nest [wF, wG, wH]) [a, b, c] = Some out"
  from out run obtain fa ga ha where fa: "forward F wF [a] = Some fa"
    and ga: "forward G wG [a, b, c] = Some ga" and ha: "forward H wH [a, b] = Some ha"
    and o: "out = fa @ ga @ ha"
    by (auto simp: bind_eq_Some_conv)
  have "length fa = 1" using forward_n_out[OF fa] ar by simp
  then obtain f1 where f1: "fa = [f1]" by (cases fa) auto
  have "length ga = 1" using forward_n_out[OF ga] ar by simp
  then obtain g1 where g1: "ga = [g1]" by (cases ga) auto
  have "length ha = 2" using forward_n_out[OF ha] ar by simp
  then obtain h1 h2 where h12: "ha = [h1, h2]"
    by (cases ha; cases "tl ha") auto
  show "length out = 4" using o f1 g1 h12 by simp
  show "forward F wF [a] = Some [out ! 0]" using o f1 g1 h12 fa by simp
  show "forward G wG [a, b, c] = Some [out ! 1]" using o f1 g1 h12 ga by simp
  show "forward H wH [a, b] = Some [out ! 2, out ! 3]" using o f1 g1 h12 ha
    by (simp add: numeral_3_eq_3)
next
  show "n_in (Branch [Some Relu, Some times_100]) = 1"
    by (simp add: n_in_def arity_Branch arity_Relu arity_times_100)
  show "n_out (Branch [Some Relu, Some times_100]) = 2"
    by (simp add: n_out_def arity_Branch arity_Relu arity_times_100)
  show c: "call (Branch [Some Relu, Some times_100]) [x] = Some [relu_array x, times_100_fn x]" for x
    by (simp add: call_def weights_Branch forward_Branch n_in_def arity_Branch arity_Relu
        arity_times_100 forward_Relu forward_times_100)
  show "items (times_100_fn x) = map (\<lambda>v. 100 * v) (items x)"
    by (simp add: times_100_fn_def mult.commute)
  show "shape (times_100_fn x) = shape x"
    by (simp add: times_100_fn_def)
  show "map items (the (call (Branch [Some Relu, Some times_100]) [x_example1]))
        = [y_example1_items, y1_example6_items]"
    by (simp add: c relu_array_def times_100_fn_def x_example1_def y_example1_items_def
        y1_example6_items_def)
qed

theorem branch_parallel_outputs_witness:
  "n_in Relu = 1 \<and> n_out Relu = 1 \<and> n_in (Serial [Add, Add]) = 3 \<and> n_out (Serial [Add, Add]) = 1
   \<and> n_in (Branch [Some Add, Some Add]) = 2 \<and> n_out (Branch [Some Add, Some Add]) = 2
   \<and> n_in (Branch [Some Relu, Some (Serial [Add, Add]), Some (Branch [Some Add, Some Add])]) = 3
   \<and> n_out (Branch [Some Relu, Some (Serial [Add, Add]), Some (Branch [Some Add, Some Add])]) = 4
   \<and> map items
        (the (forward (Branch [Some Relu, Some (Serial [Add, Add]), Some (Branch [Some Add, Some Add])])
           (Nest [EMPTY_WEIGHTS, Nest [EMPTY_WEIGHTS, EMPTY_WEIGHTS], Nest [EMPTY_WEIGHTS, EMPTY_WEIGHTS]])
           [x_example1, x_example1, x_example1]))
      = [[0, 0, 0, 1, 2, 0, 0, 0, 10, 20],
         [-6, -3, 0, 3, 6, -60, -30, 0, 30, 60],
         [-4, -2, 0, 2, 4, -40, -20, 0, 20, 40],
         [-4, -2, 0, 2, 4, -40, -20, 0, 20, 40]]"
proof -
  have arS: "arity (Serial [Add, Add]) = (3, 1)"
    by (simp add: arity_Serial arity_Add serial_step_def)
  have arB: "arity (Branch [Some Add, Some Add]) = (2, 2)"
    by (simp add: arity_Branch arity_Add)
  have fS: "forward (Serial [Add, Add]) (Nest [EMPTY_WEIGHTS, EMPTY_WEIGHTS]) [a, b, c] =
      Option.bind (add_arrays a b) (\<lambda>z. map_option (\<lambda>z. [z]) (add_arrays z c))" for a b c
    by (simp add: forward_Serial n_in_def arS arity_Add forward_Add split: option.splits)
  have fB: "forward (Branch [Some Add, Some Add]) (Nest [EMPTY_WEIGHTS, EMPTY_WEIGHTS]) [a, b] =
      Option.bind (add_arrays a b) (\<lambda>z. Some [z, z])" for a b
    by (simp add: forward_Branch n_in_def arB arity_Add forward_Add split: option.splits)
  show ?thesis
    using branch_parallel_outputs[of Relu "Serial [Add, Add]" "Branch [Some Add, Some Add]"
        EMPTY_WEIGHTS "Nest [EMPTY_WEIGHTS, EMPTY_WEIGHTS]" "Nest [EMPTY_WEIGHTS, EMPTY_WEIGHTS]"
        x_example1 x_example1 x_example1
        "[relu_array x_example1,
          x_example1\<lparr>items := [-6, -3, 0, 3, 6, -60, -30, 0, 30, 60]\<rparr>,
          x_example1\<lparr>items := [-4, -2, 0, 2, 4, -40, -20, 0, 20, 40]\<rparr>,
          x_example1\<lparr>items := [-4, -2, 0, 2, 4, -40, -20, 0, 20, 40]\<rparr>]" x_example1]
    by (simp add: n_in_def n_out_def arity_Relu arS arB fS fB forward_Relu add_arrays_def
        relu_array_def x_example1_def times_100_fn_def)
qed

subsection \<open>Residual\<close>

lemma arity_Branch_shortcut:
  "arity k = (1, 1) \<Longrightarrow> arity (Branch [None, Some k]) = (1, 2)"
  by (simp add: arity_Branch arity_NoOp)

lemma forward_Branch_shortcut:
  assumes "arity k = (1, 1)"
  shows "forward (Branch [None, Some k]) (Nest [w0, wk]) [x] =
           map_option (\<lambda>ys. x # ys) (forward k wk [x])"
proof -
  have nk: "n_in k = 1" using assms by (simp add: n_in_def)
  have nb: "n_in (Branch [None, Some k]) = 1"
    by (simp add: n_in_def arity_Branch_shortcut[OF assms])
  show ?thesis
    by (simp add: forward_Branch nb nk n_in_NoOp forward_NoOp split: option.splits)
qed

lemma residual_forward:
  assumes ar: "arity k = (1, 1)"
  shows "forward (Serial [Branch [None, Some k], Add]) (Nest [Nest [w0, wk], wa]) [x] =
           Option.bind (forward k wk [x]) (\<lambda>ys. map_option (\<lambda>z. [z]) (add_arrays x (hd ys)))"
proof -
  have nin: "n_in (Serial [Branch [None, Some k], Add]) = 1"
    by (simp add: n_in_def arity_Serial arity_Branch_shortcut[OF ar] arity_Add serial_step_def)
  have nb: "n_in (Branch [None, Some k]) = 1"
    by (simp add: n_in_def arity_Branch_shortcut[OF ar])
  show ?thesis
  proof (cases "forward k wk [x]")
    case None
    then show ?thesis
      by (simp add: forward_Serial nin nb forward_Branch_shortcut[OF ar])
  next
    case (Some ys)
    have "length ys = 1" using forward_n_out[OF Some] ar by (simp add: n_out_def)
    then obtain y where ys: "ys = [y]" by (cases ys) auto
    show ?thesis
      using Some ys
      by (simp add: forward_Serial nin nb n_in_Add forward_Branch_shortcut[OF ar] forward_Add
          split: option.splits)
  qed
qed

text \<open>
  Claim C9. \<open>Residual(*layers)\<close> without a \<open>shortcut\<close> argument is
  \<open>Serial(Branch(None, layer), Add())\<close>, where \<open>layer\<close> is \<open>layers[0]\<close> when exactly one layer
  is given and \<open>Serial(layers)\<close> otherwise. \<open>Add()\<close> has two inputs and one output. When
  \<open>layer\<close> has one input and one output, \<open>Branch(None, layer)\<close> has one input and two
  outputs (it copies the single incoming stream), and \<open>Residual\<close> applied to the single
  input \<open>x\<close> returns the sum of \<open>x\<close> and of the layer series applied to \<open>x\<close>, which is the
  sum item by item for arrays of one shape.
\<close>

theorem residual_is_shortcut_sum:
  "Residual layers None =
     Serial [Branch [None, Some (if length layers = 1 then layers ! 0 else Serial layers)], Add]
   \<and> n_in Add = 2 \<and> n_out Add = 1
   \<and> (layer = (if length layers = 1 then layers ! 0 else Serial layers)
        \<and> n_in layer = 1 \<and> n_out layer = 1 \<longrightarrow>
        n_in (Branch [None, Some layer]) = 1
        \<and> n_out (Branch [None, Some layer]) = 2
        \<and> n_in (Residual layers None) = 1
        \<and> n_out (Residual layers None) = 1
        \<and> forward (Residual layers None) (Nest [Nest [EMPTY_WEIGHTS, wl], EMPTY_WEIGHTS]) [x] =
            Option.bind (forward layer wl [x])
              (\<lambda>ys. map_option (\<lambda>z. [z]) (add_arrays x (hd ys))))
   \<and> (shape x = shape y \<longrightarrow>
        add_arrays x y = Some (x\<lparr>items := map2 (+) (items x) (items y)\<rparr>))"
proof (intro conjI impI)
  show "Residual layers None =
     Serial [Branch [None, Some (if length layers = 1 then layers ! 0 else Serial layers)], Add]"
    by (simp add: Residual_def)
  show "n_in Add = 2" and "n_out Add = 1"
    by (simp_all add: n_in_def n_out_def arity_Add)
next
  assume a: "layer = (if length layers = 1 then layers ! 0 else Serial layers)
        \<and> n_in layer = 1 \<and> n_out layer = 1"
  then have "n_in layer = 1" and "n_out layer = 1" by blast+
  then have ar: "arity layer = (1, 1)" by (simp add: n_in_def n_out_def prod_eq_iff)
  from a have res: "Residual layers None = Serial [Branch [None, Some layer], Add]"
    by (simp add: Residual_def)
  show "n_in (Branch [None, Some layer]) = 1" and "n_out (Branch [None, Some layer]) = 2"
    by (simp_all add: n_in_def n_out_def arity_Branch_shortcut[OF ar])
  show "n_in (Residual layers None) = 1" and "n_out (Residual layers None) = 1"
    unfolding res
    by (simp_all add: n_in_def n_out_def arity_Serial arity_Branch_shortcut[OF ar] arity_Add
        serial_step_def)
  show "forward (Residual layers None) (Nest [Nest [EMPTY_WEIGHTS, wl], EMPTY_WEIGHTS]) [x] =
            Option.bind (forward layer wl [x])
              (\<lambda>ys. map_option (\<lambda>z. [z]) (add_arrays x (hd ys)))"
    unfolding res by (rule residual_forward[OF ar])
next
  assume "shape x = shape y"
  then show "add_arrays x y = Some (x\<lparr>items := map2 (+) (items x) (items y)\<rparr>)"
    by (simp add: add_arrays_def)
qed

theorem residual_is_shortcut_sum_witness:
  "Relu = (if length [Relu] = 1 then [Relu] ! 0 else Serial [Relu])
   \<and> n_in Relu = 1 \<and> n_out Relu = 1
   \<and> n_in (Residual [Relu] None) = 1 \<and> n_out (Residual [Relu] None) = 1
   \<and> forward (Residual [Relu] None) (Nest [Nest [EMPTY_WEIGHTS, EMPTY_WEIGHTS], EMPTY_WEIGHTS])
        [x_example1]
      = Some [x_example1\<lparr>items := [-2, -1, 0, 2, 4, -20, -10, 0, 20, 40]\<rparr>]
   \<and> shape x_example1 = shape (relu_array x_example1)
   \<and> add_arrays x_example1 (relu_array x_example1)
      = Some (x_example1\<lparr>items := [-2, -1, 0, 2, 4, -20, -10, 0, 20, 40]\<rparr>)"
proof -
  have pre: "Relu = (if length [Relu] = 1 then [Relu] ! 0 else Serial [Relu])
      \<and> n_in Relu = 1 \<and> n_out Relu = 1"
    by (simp add: n_in_Relu n_out_Relu)
  have sh: "shape x_example1 = shape (relu_array x_example1)"
    by (simp add: relu_array_def)
  from residual_is_shortcut_sum[of "[Relu]" Relu EMPTY_WEIGHTS x_example1 "relu_array x_example1"]
    pre sh
  have "n_in (Residual [Relu] None) = 1" and "n_out (Residual [Relu] None) = 1"
    and "forward (Residual [Relu] None) (Nest [Nest [EMPTY_WEIGHTS, EMPTY_WEIGHTS], EMPTY_WEIGHTS])
           [x_example1]
         = Option.bind (forward Relu EMPTY_WEIGHTS [x_example1])
             (\<lambda>ys. map_option (\<lambda>z. [z]) (add_arrays x_example1 (hd ys)))"
    and "add_arrays x_example1 (relu_array x_example1)
         = Some (x_example1\<lparr>items := map2 (+) (items x_example1) (items (relu_array x_example1))\<rparr>)"
    by blast+
  moreover have "map2 (+) (items x_example1) (items (relu_array x_example1))
      = [-2, -1, 0, 2, 4, -20, -10, 0, 20, 40]"
    by (simp add: relu_array_def x_example1_def)
  ultimately show ?thesis using pre sh by (simp add: forward_Relu)
qed

subsection \<open>Relu\<close>



subsection \<open>Layers, their arities and their weights\<close>

lemma init_LayerNorm:
  "init [s] rng (LayerNorm norm_fn) =
     (if shape s = [] then None
      else Some ((Tup [ones (last (shape s)), zeros (last (shape s))], EMPTY_STATE),
                 Layer (Leaf ''LayerNorm'' 1 1 (LayerNorm_forward norm_fn) LayerNorm_new_weights) []
                   (Tup [ones (last (shape s)), zeros (last (shape s))]) True))"
  by (simp add: LayerNorm_def LayerNorm_new_weights_def)

text \<open>
  Claim C6. Every layer computes a function from zero or more arrays to zero or more
  arrays, whose numbers are its properties \<open>n_in\<close> and \<open>n_out\<close>: a call that returns has
  taken \<open>n_in\<close> inputs and returns \<open>n_out\<close> outputs. Weights are optional: \<open>Relu\<close> has one
  input and one output, holds no weights and can be called on data without
  initialization, while \<open>LayerNorm\<close>, which holds no weights before, holds after \<open>init\<close>
  on a signature of shape \<open>(3, 5)\<close> and dtype \<open>float32\<close> (the signature of the array of
  Example 4) the pair of a scale vector of five ones and a bias vector of five zeros.
\<close>

theorem layers_arities_and_weights:
  "0 \<le> n_in l \<and> 0 \<le> n_out l
   \<and> (forward l w xs = Some ys \<longrightarrow> length xs = n_in l \<and> length ys = n_out l)
   \<and> n_in Relu = 1 \<and> n_out Relu = 1
   \<and> weights Relu = EMPTY_WEIGHTS \<and> \<not> init_finished Relu
   \<and> call Relu [x] = Some [relu_array x]
   \<and> n_in (LayerNorm norm_fn) = 1 \<and> n_out (LayerNorm norm_fn) = 1
   \<and> weights (LayerNorm norm_fn) = EMPTY_WEIGHTS
   \<and> signature (Obj x_example4) = Sig \<lparr>shape = [3, 5], dtype = float32\<rparr>
   \<and> map_option (\<lambda>r. (fst (fst r), weights (snd r), init_finished (snd r)))
        (init (signature_list (Sig \<lparr>shape = [3, 5], dtype = float32\<rparr>)) rng (LayerNorm norm_fn))
      = Some (Tup [\<lparr>shape = [5], dtype = float32, items = [1, 1, 1, 1, 1]\<rparr>,
                   \<lparr>shape = [5], dtype = float32, items = [0, 0, 0, 0, 0]\<rparr>],
              Tup [\<lparr>shape = [5], dtype = float32, items = [1, 1, 1, 1, 1]\<rparr>,
                   \<lparr>shape = [5], dtype = float32, items = [0, 0, 0, 0, 0]\<rparr>],
              True)"
proof (intro conjI impI)
  assume f: "forward l w xs = Some ys"
  show "length xs = n_in l" using f by (rule forward_n_in)
  show "length ys = n_out l" using f by (rule forward_n_out)
next
  show "weights Relu = EMPTY_WEIGHTS" and "\<not> init_finished Relu"
    by (simp_all add: Relu_def)
  show "call Relu [x] = Some [relu_array x]"
    by (simp add: call_def forward_Relu)
  show "weights (LayerNorm norm_fn) = EMPTY_WEIGHTS"
    by (simp add: LayerNorm_def)
  show "signature (Obj x_example4) = Sig \<lparr>shape = [3, 5], dtype = float32\<rparr>"
    by (simp add: shape_dtype_def x_example4_def)
  have five: "replicate 5 (c::real) = [c, c, c, c, c]" for c
    by (simp add: numeral_eq_Suc)
  show "map_option (\<lambda>r. (fst (fst r), weights (snd r), init_finished (snd r)))
        (init (signature_list (Sig \<lparr>shape = [3, 5], dtype = float32\<rparr>)) rng (LayerNorm norm_fn))
      = Some (Tup [\<lparr>shape = [5], dtype = float32, items = [1, 1, 1, 1, 1]\<rparr>,
                   \<lparr>shape = [5], dtype = float32, items = [0, 0, 0, 0, 0]\<rparr>],
              Tup [\<lparr>shape = [5], dtype = float32, items = [1, 1, 1, 1, 1]\<rparr>,
                   \<lparr>shape = [5], dtype = float32, items = [0, 0, 0, 0, 0]\<rparr>],
              True)"
    by (simp add: init_LayerNorm ones_def zeros_def five)
qed (simp_all add: n_in_Relu n_out_Relu n_in_LayerNorm n_out_LayerNorm)

theorem layers_arities_and_weights_witness:
  "forward Add EMPTY_WEIGHTS [x_example1, x_example1]
     = Some [x_example1\<lparr>items := [-4, -2, 0, 2, 4, -40, -20, 0, 20, 40]\<rparr>]
   \<and> length [x_example1, x_example1] = n_in Add
   \<and> length [x_example1\<lparr>items := [-4, -2, 0, 2, 4, -40, -20, 0, 20, 40]\<rparr>] = n_out Add
   \<and> n_in Add = 2 \<and> n_out Add = 1"
  using layers_arities_and_weights[of Add EMPTY_WEIGHTS "[x_example1, x_example1]"
      "[x_example1\<lparr>items := [-4, -2, 0, 2, 4, -40, -20, 0, 20, 40]\<rparr>]"]
  by (simp add: forward_Add add_arrays_def x_example1_def n_in_Add n_out_Add)

subsection \<open>Signatures and initialization\<close>







end
